theory Spec2Isabelle
  imports Complex_Main "HOL-Library.Multiset"
begin

section \<open>Record store\<close>

text \<open>
  The server (Express and Mongoose) keeps eight collections. A document read with
  \<^verbatim>\<open>.lean()\<close> is a plain object whose paths carry the types of its schema: text paths
  are strings, \<^verbatim>\<open>createdAt\<close> is a date (here: milliseconds since the epoch), and a path
  that is not set is absent (\<open>None\<close>). The field \<open>oid\<close> is the document's \<^verbatim>\<open>_id\<close>.
\<close>

record entity =
  oid :: string

record owned = entity +
  sid :: string

record student = owned +
  emailid :: string

record faculty = entity +
  facultyid :: string

record stored = owned +
  url :: "string option"
  status :: "string option"
  description :: "string option"
  createdAt :: "int option"

record submission = stored +
  activities :: "string option"
  companyname :: "string option"
  duration :: "string option"
  companytype :: "string option"
  skillname :: "string option"

record academic = stored +
  gpa :: real
  sem :: int

text \<open>The models imported at the top of the server file, and one collection for each.\<close>

datatype model =
  Student | Faculty | GPA | Activities | Extracurriculam | Interned | Company | Skill

record store =
  coll_Student :: "student list"
  coll_Faculty :: "faculty list"
  coll_GPA :: "academic list"
  coll_Activities :: "submission list"
  coll_Extracurriculam :: "submission list"
  coll_Interned :: "submission list"
  coll_Company :: "submission list"
  coll_Skill :: "submission list"

text \<open>
  A query is an asynchronous call that may reject (the store is unreachable). The state of
  the store seen by one handler run is \<open>Some st\<close>, or \<open>None\<close> when every query rejects.
\<close>

type_synonym db = "store option"

section \<open>Snapshots (the Change Notifier)\<close>

record reply =
  message :: string

record 'd snapshot = reply +
  totalCount :: nat
  documents :: "'d list"

record academics_snapshot = reply +
  snap_sid :: string
  snap_count :: nat
  records :: "academic list"

record breakdown =
  curriculam :: nat
  internships :: nat
  placements :: nat
  skills :: nat

record pending_doc = submission +
  documentType :: string
  title :: "string option"
  subtitle :: "string option"

record pending_snapshot = "pending_doc snapshot" +
  breakdown :: breakdown

text \<open>\<^verbatim>\<open>process.env.PORT || 5000\<close>: an unset or empty variable gives 5000.\<close>

definition port :: "string option \<Rightarrow> string" where
  "port PORT = (case PORT of None \<Rightarrow> ''5000'' | Some p \<Rightarrow> if p = [] then ''5000'' else p)"

text \<open>
  \<^verbatim>\<open>doc.url ? `http://localhost:${process.env.PORT || 5000}${doc.url}` : null\<close>:
  an absent or empty location is falsy and becomes null.
\<close>

definition fullUrl :: "string option \<Rightarrow> string option \<Rightarrow> string option" where
  "fullUrl PORT u =
     (case u of
        None \<Rightarrow> None
      | Some s \<Rightarrow> if s = [] then None else Some (''http://localhost:'' @ port PORT @ s))"

definition withFullUrl :: "string option \<Rightarrow> ('a stored_scheme) \<Rightarrow> ('a stored_scheme)" where
  "withFullUrl PORT doc = doc\<lparr>url := fullUrl PORT (url doc)\<rparr>"

text \<open>\<^verbatim>\<open>new Date(doc.createdAt || 0)\<close> as a time value: a missing date is the epoch.\<close>

definition created :: "('a stored_scheme) \<Rightarrow> int" where
  "created doc = (case createdAt doc of None \<Rightarrow> 0 | Some t \<Rightarrow> t)"

text \<open>
  \<^verbatim>\<open>docs.sort((a, b) => new Date(b.createdAt || 0) - new Date(a.createdAt || 0))\<close>.
  \<^verbatim>\<open>Array.prototype.sort\<close> is stable, so the result is the stable sort on the negated
  time value.
\<close>

definition sortNewestFirst :: "('a stored_scheme) list \<Rightarrow> ('a stored_scheme) list" where
  "sortNewestFirst docs = sort_key (\<lambda>d. - created d) docs"

text \<open>\<^verbatim>\<open>GPA.find({ sid: sid }).lean().sort({ sem: 1 })\<close>, and the three helpers.\<close>

definition fetchStudentAcademics :: "string option \<Rightarrow> db \<Rightarrow> string \<Rightarrow> academics_snapshot option" where
  "fetchStudentAcademics PORT db s =
     (case db of
        None \<Rightarrow> None
      | Some st \<Rightarrow>
          let academicRecords = sort_key sem (filter (\<lambda>r. sid r = s) (coll_GPA st));
              recordsWithFullUrl = map (withFullUrl PORT) academicRecords
          in Some \<lparr>message = ''Academic records retrieved successfully'',
                   snap_sid = s,
                   snap_count = length recordsWithFullUrl,
                   records = recordsWithFullUrl\<rparr>)"

definition fetchStudentSkills :: "string option \<Rightarrow> db \<Rightarrow> string \<Rightarrow> submission snapshot option" where
  "fetchStudentSkills PORT db s =
     (case db of
        None \<Rightarrow> None
      | Some st \<Rightarrow>
          let skillsDocuments = filter (\<lambda>d. sid d = s) (coll_Skill st);
              documentsWithFullUrls = sortNewestFirst (map (withFullUrl PORT) skillsDocuments)
          in Some \<lparr>message = ''Skills documents retrieved successfully'',
                   totalCount = length documentsWithFullUrls,
                   documents = documentsWithFullUrls\<rparr>)"

definition fetchStudentCurricular :: "string option \<Rightarrow> db \<Rightarrow> string \<Rightarrow> submission snapshot option" where
  "fetchStudentCurricular PORT db s =
     (case db of
        None \<Rightarrow> None
      | Some st \<Rightarrow>
          let curricularDocuments = filter (\<lambda>d. sid d = s) (coll_Activities st);
              documentsWithFullUrls = sortNewestFirst (map (withFullUrl PORT) curricularDocuments)
          in Some \<lparr>message = ''Curricular documents retrieved successfully'',
                   totalCount = length documentsWithFullUrls,
                   documents = documentsWithFullUrls\<rparr>)"

text \<open>A template literal prints an absent value as \<^verbatim>\<open>undefined\<close>.\<close>

definition tmpl :: "string option \<Rightarrow> string" where
  "tmpl v = (case v of None \<Rightarrow> ''undefined'' | Some s \<Rightarrow> s)"

definition withType :: "string \<Rightarrow> (submission \<Rightarrow> string option) \<Rightarrow> (submission \<Rightarrow> string option)
    \<Rightarrow> submission \<Rightarrow> pending_doc" where
  "withType ty ttl sub doc =
     submission.extend doc (pending_doc.fields ty (ttl doc) (sub doc))"

definition isPending :: "('a stored_scheme) \<Rightarrow> bool" where
  "isPending doc = (status doc = Some ''pending'')"

definition fetchPendingDocuments :: "string option \<Rightarrow> db \<Rightarrow> pending_snapshot option" where
  "fetchPendingDocuments PORT db =
     (case db of
        None \<Rightarrow> None
      | Some st \<Rightarrow>
          let pendingActivities = filter isPending (coll_Activities st);
              pendingInterns = filter isPending (coll_Interned st);
              pendingPlacements = filter isPending (coll_Company st);
              pendingSkills = filter isPending (coll_Skill st);
              activitiesWithType =
                map (withType ''curriculam'' activities description) pendingActivities;
              internsWithType =
                map (withType ''internship'' companyname
                      (\<lambda>doc. Some (tmpl (duration doc) @ '' - '' @ tmpl (companytype doc))))
                    pendingInterns;
              placementsWithType =
                map (withType ''placement'' companyname companytype) pendingPlacements;
              skillsWithType =
                map (withType ''skill'' skillname (\<lambda>doc. Some ''Skill Certificate''))
                    pendingSkills;
              allPendingDocuments =
                activitiesWithType @ internsWithType @ placementsWithType @ skillsWithType;
              documentsWithFullUrls = sortNewestFirst (map (withFullUrl PORT) allPendingDocuments)
          in Some \<lparr>message = ''Pending documents retrieved successfully'',
                   totalCount = length documentsWithFullUrls,
                   documents = documentsWithFullUrls,
                   breakdown =
                     \<lparr>curriculam = length activitiesWithType,
                      internships = length internsWithType,
                      placements = length placementsWithType,
                      skills = length skillsWithType\<rparr>\<rparr>)"

section \<open>Bearer credentials\<close>

text \<open>
  The payload of a signed token. Student tokens carry \<^verbatim>\<open>studentId\<close>; admin tokens carry
  \<^verbatim>\<open>facultyId\<close> and \<^verbatim>\<open>role: 'admin'\<close>. The library call
  \<^verbatim>\<open>jwt.verify(token, process.env.JWT_SECRET)\<close> is a parameter \<open>verify\<close> of the
  middleware: \<open>None\<close> when it throws (bad signature, expired, malformed).
\<close>

record claims =
  studentId :: "string option"
  facultyId :: "string option"
  role :: "string option"

record request =
  authorization :: "string option"
  query_token :: "string option"
  params_sid :: string
  body :: "string \<Rightarrow> string option"

text \<open>\<^verbatim>\<open>res.status(code).json({...})\<close>: the status code and the fields of the body.\<close>

datatype http = Json nat "(string \<times> string) list"

text \<open>\<^verbatim>\<open>s.replace(pat, '')\<close> removes the first occurrence of a pattern.\<close>

fun removeFirst :: "string \<Rightarrow> string \<Rightarrow> string" where
  "removeFirst pat [] = []"
| "removeFirst pat (c # cs) =
     (if take (length pat) (c # cs) = pat then drop (length pat) (c # cs)
      else c # removeFirst pat cs)"

definition truthy :: "string option \<Rightarrow> bool" where
  "truthy v = (case v of None \<Rightarrow> False | Some s \<Rightarrow> s \<noteq> [])"

text \<open>
  The first lines of both middlewares: the header without \<^verbatim>\<open>Bearer \<close>, else the
  query parameter; \<open>None\<close> when \<^verbatim>\<open>!token\<close>.
\<close>

definition bearerToken :: "request \<Rightarrow> string option" where
  "bearerToken req =
     (let token = map_option (removeFirst ''Bearer '') (authorization req);
          token' = (if \<not> truthy token \<and> truthy (query_token req) then query_token req else token)
      in if \<not> truthy token' then None else token')"

definition findById :: "string option \<Rightarrow> ('a entity_scheme) list \<Rightarrow> ('a entity_scheme) option" where
  "findById i docs = (case i of None \<Rightarrow> None | Some k \<Rightarrow> find (\<lambda>d. oid d = k) docs)"

definition authenticateStudent :: "(string \<Rightarrow> claims option) \<Rightarrow> db \<Rightarrow> request \<Rightarrow> http + student" where
  "authenticateStudent verify db req =
     (case bearerToken req of
        None \<Rightarrow> Inl (Json 401 [(''error'', ''Access denied. No token provided.'')])
      | Some token \<Rightarrow>
          (case verify token of
             None \<Rightarrow> Inl (Json 401 [(''error'', ''Invalid token.'')])
           | Some decoded \<Rightarrow>
               (case db of
                  None \<Rightarrow> Inl (Json 401 [(''error'', ''Invalid token.'')])
                | Some st \<Rightarrow>
                    (case findById (studentId decoded) (coll_Student st) of
                       None \<Rightarrow> Inl (Json 401 [(''error'', ''Invalid token. Student not found.'')])
                     | Some student \<Rightarrow> Inr student))))"

definition authenticateAdmin :: "(string \<Rightarrow> claims option) \<Rightarrow> db \<Rightarrow> request \<Rightarrow> http + faculty" where
  "authenticateAdmin verify db req =
     (case bearerToken req of
        None \<Rightarrow> Inl (Json 401 [(''error'', ''Access denied. No token provided.'')])
      | Some token \<Rightarrow>
          (case verify token of
             None \<Rightarrow> Inl (Json 401 [(''error'', ''Invalid token.'')])
           | Some decoded \<Rightarrow>
               if role decoded \<noteq> Some ''admin''
               then Inl (Json 403 [(''error'', ''Access denied. Admin privileges required.'')])
               else
                 (case db of
                    None \<Rightarrow> Inl (Json 401 [(''error'', ''Invalid token.'')])
                  | Some st \<Rightarrow>
                      (case findById (facultyId decoded) (coll_Faculty st) of
                         None \<Rightarrow> Inl (Json 401 [(''error'', ''Invalid token. Faculty not found.'')])
                       | Some faculty \<Rightarrow> Inr faculty))))"

section \<open>Subscriber sessions (the event streams)\<close>

text \<open>
  What a stream handler writes to the connection, in order: named events with a payload,
  and heartbeat comments. A session also holds its two interval timers.
\<close>

datatype payload =
  PendingDocuments pending_snapshot
| AcademicsUpdate academics_snapshot
| DocumentsUpdate "submission snapshot"
| Failure string

datatype frame = Event string payload | Heartbeat

record session =
  written :: "frame list"
  pollInterval :: bool
  heartbeatInterval :: bool
  ended :: bool

text \<open>
  The four stream routes have one body; they differ in the helper they call, the event
  name and the text of the initial error event.
\<close>

datatype stream =
  PendingStream | AcademicsStream string | SkillsStream string | CurricularStream string

fun eventName :: "stream \<Rightarrow> string" where
  "eventName PendingStream = ''pending-documents''"
| "eventName (AcademicsStream s) = ''academics-update''"
| "eventName (SkillsStream s) = ''skills-update''"
| "eventName (CurricularStream s) = ''curricular-update''"

fun initialError :: "stream \<Rightarrow> string" where
  "initialError PendingStream = ''Failed to fetch initial data''"
| "initialError (AcademicsStream s) = ''Failed to fetch academic records''"
| "initialError (SkillsStream s) = ''Failed to fetch skills documents''"
| "initialError (CurricularStream s) = ''Failed to fetch curricular documents''"

fun fetch :: "string option \<Rightarrow> db \<Rightarrow> stream \<Rightarrow> payload option" where
  "fetch PORT db PendingStream = map_option PendingDocuments (fetchPendingDocuments PORT db)"
| "fetch PORT db (AcademicsStream s) = map_option AcademicsUpdate (fetchStudentAcademics PORT db s)"
| "fetch PORT db (SkillsStream s) = map_option DocumentsUpdate (fetchStudentSkills PORT db s)"
| "fetch PORT db (CurricularStream s) = map_option DocumentsUpdate (fetchStudentCurricular PORT db s)"

text \<open>
  The body of a route after the headers are flushed: the initial fetch is awaited and its
  result (or an error event) written, then both timers are created.
\<close>

definition openStream :: "string option \<Rightarrow> db \<Rightarrow> stream \<Rightarrow> session" where
  "openStream PORT db k =
     \<lparr>written =
        (case fetch PORT db k of
           Some initialData \<Rightarrow> [Event (eventName k) initialData]
         | None \<Rightarrow> [Event ''error'' (Failure (initialError k))]),
      pollInterval = True,
      heartbeatInterval = True,
      ended = False\<rparr>"

text \<open>
  What can happen to an open session: the poll timer fires (with the store as it is then),
  the heartbeat timer fires, the request closes, or the response reports an error. A
  cleared timer does not fire.
\<close>

datatype event = PollTick db | HeartbeatTick | ReqClose | ResError

fun step :: "string option \<Rightarrow> stream \<Rightarrow> session \<Rightarrow> event \<Rightarrow> session" where
  "step PORT k s (PollTick db) =
     (if pollInterval s then
        (case fetch PORT db k of
           Some updatedData \<Rightarrow> s\<lparr>written := written s @ [Event (eventName k) updatedData]\<rparr>
         | None \<Rightarrow> s)
      else s)"
| "step PORT k s HeartbeatTick =
     (if heartbeatInterval s then s\<lparr>written := written s @ [Heartbeat]\<rparr> else s)"
| "step PORT k s ReqClose = s\<lparr>pollInterval := False, heartbeatInterval := False, ended := True\<rparr>"
| "step PORT k s ResError = s\<lparr>pollInterval := False, heartbeatInterval := False\<rparr>"

definition run :: "string option \<Rightarrow> stream \<Rightarrow> session \<Rightarrow> event list \<Rightarrow> session" where
  "run PORT k s evs = foldl (step PORT k) s evs"

text \<open>
  The routes. The pending-documents route is registered without a middleware. The three
  student routes await the middleware's query and then the initial fetch: two queries, each
  with the store as it is then (\<open>dbAuth\<close> for the middleware, \<open>db\<close> for the fetch), so a
  request can be authenticated and its initial fetch still fail.
\<close>

definition pendingDocumentsStream :: "string option \<Rightarrow> db \<Rightarrow> request \<Rightarrow> http + session" where
  "pendingDocumentsStream PORT db req = Inr (openStream PORT db PendingStream)"

definition academicsStream ::
    "(string \<Rightarrow> claims option) \<Rightarrow> string option \<Rightarrow> db \<Rightarrow> db \<Rightarrow> request \<Rightarrow> http + session" where
  "academicsStream verify PORT dbAuth db req =
     (case authenticateStudent verify dbAuth req of
        Inl denied \<Rightarrow> Inl denied
      | Inr student \<Rightarrow>
          if params_sid req \<noteq> sid student
          then Inl (Json 403 [(''error'', ''Access denied. Can only view your own academic records.'')])
          else Inr (openStream PORT db (AcademicsStream (params_sid req))))"

definition skillsStream ::
    "(string \<Rightarrow> claims option) \<Rightarrow> string option \<Rightarrow> db \<Rightarrow> db \<Rightarrow> request \<Rightarrow> http + session" where
  "skillsStream verify PORT dbAuth db req =
     (case authenticateStudent verify dbAuth req of
        Inl denied \<Rightarrow> Inl denied
      | Inr student \<Rightarrow> Inr (openStream PORT db (SkillsStream (sid student))))"

definition curricularStream ::
    "(string \<Rightarrow> claims option) \<Rightarrow> string option \<Rightarrow> db \<Rightarrow> db \<Rightarrow> request \<Rightarrow> http + session" where
  "curricularStream verify PORT dbAuth db req =
     (case authenticateStudent verify dbAuth req of
        Inl denied \<Rightarrow> Inl denied
      | Inr student \<Rightarrow> Inr (openStream PORT db (CurricularStream (sid student))))"

section \<open>Review actions\<close>

text \<open>
  What the two review routes take from their surroundings: the library calls
  (\<^verbatim>\<open>jwt.verify\<close>, \<^verbatim>\<open>new URL(str, 'http://placeholder').pathname\<close>,
  \<^verbatim>\<open>decodeURIComponent\<close>; \<open>None\<close> when the call throws; and
  \<^verbatim>\<open>String.prototype.toLowerCase\<close>, which follows the case tables of Unicode), and
  what the model files,
  which are not part of the sources, register with Mongoose: the model names, the paths of
  each schema, and whether a schema's update validators accept a value for a path.
\<close>

record platform =
  jwtVerify :: "string \<Rightarrow> claims option"
  pathname :: "string \<Rightarrow> string option"
  decodeURIComponent :: "string \<Rightarrow> string option"
  toLowerCase :: "string \<Rightarrow> string"
  modelNames :: "(string \<times> model) list"
  schemaPath :: "model \<Rightarrow> string \<Rightarrow> bool"
  validators :: "model \<Rightarrow> string \<Rightarrow> string \<Rightarrow> bool"

text \<open>
  A string of the program is modelled by its UTF-8 bytes. \<^verbatim>\<open>String.prototype.trim\<close>
  removes white space and line terminators from both ends: U+0009 to U+000D, U+0020,
  U+00A0, U+1680, U+2000 to U+200A, U+2028, U+2029, U+202F, U+205F, U+3000 and U+FEFF, here
  each as its byte sequence.
\<close>

definition whiteSpace :: "string list" where
  "whiteSpace =
     [[CHR 0x09], [CHR 0x0A], [CHR 0x0B], [CHR 0x0C], [CHR 0x0D], [CHR 0x20],
      [CHR 0xC2, CHR 0xA0],
      [CHR 0xE1, CHR 0x9A, CHR 0x80],
      [CHR 0xE2, CHR 0x80, CHR 0x80], [CHR 0xE2, CHR 0x80, CHR 0x81],
      [CHR 0xE2, CHR 0x80, CHR 0x82], [CHR 0xE2, CHR 0x80, CHR 0x83],
      [CHR 0xE2, CHR 0x80, CHR 0x84], [CHR 0xE2, CHR 0x80, CHR 0x85],
      [CHR 0xE2, CHR 0x80, CHR 0x86], [CHR 0xE2, CHR 0x80, CHR 0x87],
      [CHR 0xE2, CHR 0x80, CHR 0x88], [CHR 0xE2, CHR 0x80, CHR 0x89],
      [CHR 0xE2, CHR 0x80, CHR 0x8A],
      [CHR 0xE2, CHR 0x80, CHR 0xA8], [CHR 0xE2, CHR 0x80, CHR 0xA9],
      [CHR 0xE2, CHR 0x80, CHR 0xAF],
      [CHR 0xE2, CHR 0x81, CHR 0x9F],
      [CHR 0xE3, CHR 0x80, CHR 0x80],
      [CHR 0xEF, CHR 0xBB, CHR 0xBF]]"

text \<open>Removing, as long as there is one, a leading occurrence of one of the given sequences.\<close>

function strip :: "string list \<Rightarrow> string \<Rightarrow> string" where
  "strip ws s =
     (case find (\<lambda>w. w \<noteq> [] \<and> take (length w) s = w) ws of
        None \<Rightarrow> s
      | Some w \<Rightarrow> strip ws (drop (length w) s))"
  by pat_completeness auto
termination
proof (relation "measure (\<lambda>(ws, s). length s)")
  show "wf (measure (\<lambda>(ws, s). length s))" by simp
next
  fix ws :: "string list" and s w :: string
  assume "find (\<lambda>w. w \<noteq> [] \<and> take (length w) s = w) ws = Some w"
  then have w: "w \<noteq> []" "take (length w) s = w"
    by (auto simp: find_Some_iff)
  have "s \<noteq> []"
  proof
    assume "s = []"
    with w(2) have "w = []" by simp
    with w(1) show False by simp
  qed
  with w(1) have "length (drop (length w) s) < length s" by simp
  then show "((ws, drop (length w) s), (ws, s)) \<in> measure (\<lambda>(ws, s). length s)" by simp
qed

definition trim :: "string \<Rightarrow> string" where
  "trim s = rev (strip (map rev whiteSpace) (rev (strip whiteSpace s)))"

text \<open>\<^verbatim>\<open>a ?? b\<close>\<close>

definition coalesce :: "'a option \<Rightarrow> 'a option \<Rightarrow> 'a option" where
  "coalesce a b = (case a of None \<Rightarrow> b | Some x \<Rightarrow> Some x)"

definition normalizeDocUrl :: "platform \<Rightarrow> string \<Rightarrow> string" where
  "normalizeDocUrl p v =
     (if v = [] then v
      else
        let str = trim v in
        (case (case pathname p str of None \<Rightarrow> None | Some path \<Rightarrow> decodeURIComponent p path) of
           Some decoded \<Rightarrow> decoded
         | None \<Rightarrow> (case decodeURIComponent p str of Some decoded \<Rightarrow> decoded | None \<Rightarrow> str)))"

text \<open>\<^verbatim>\<open>if (docurl && !docurl.startsWith('/')) docurl = `/${docurl}`\<close>\<close>

definition leadingSlash :: "string \<Rightarrow> string" where
  "leadingSlash docurl = (if docurl \<noteq> [] \<and> take 1 docurl \<noteq> ''/'' then CHR ''/'' # docurl else docurl)"

definition modelByType :: "(string \<times> model) list" where
  "modelByType =
     [(''skill'', Skill), (''skills'', Skill),
      (''curricular'', Activities), (''curriculam'', Activities), (''curriculum'', Activities),
      (''activities'', Activities),
      (''intern'', Interned), (''inters'', Interned), (''interned'', Interned),
      (''internship'', Interned),
      (''placed'', Company), (''company'', Company), (''placement'', Company)]"

text \<open>
  \<^verbatim>\<open>modelByType[type]\<close> is a lookup in an object literal, so the two lower-case
  properties every object inherits (\<^verbatim>\<open>constructor\<close>, \<^verbatim>\<open>__proto__\<close>) are found as
  well: truthy values that are no model and have no schema.
\<close>

datatype resolved = Registered model | Inherited

definition resolveModel :: "platform \<Rightarrow> string \<Rightarrow> resolved option" where
  "resolveModel p type =
     (case map_of modelByType type of
        Some m \<Rightarrow> Some (Registered m)
      | None \<Rightarrow>
          if type \<in> set [''constructor'', ''__proto__''] then Some Inherited
          else
            (case find (\<lambda>(name, m). toLowerCase p name = type) (modelNames p) of
               Some (name, m) \<Rightarrow> Some (Registered m)
             | None \<Rightarrow> None))"

definition urlFieldCandidates :: "string list" where
  "urlFieldCandidates = [''url'', ''docurl'', ''docUrl'', ''documentUrl'', ''documenturl'']"

text \<open>
  The validation of the accept route, up to the filter: an error response, or the model,
  the url field, \<^verbatim>\<open>String(sid)\<close> and the normalized location.
\<close>

definition acceptTarget ::
    "platform \<Rightarrow> (string \<Rightarrow> string option) \<Rightarrow> http + (model \<times> string \<times> string \<times> string)" where
  "acceptTarget p b =
     (let docurlRaw = coalesce (coalesce (b ''docurl'') (b ''docUrl'')) (b ''url'');
          documentypeRaw = coalesce (coalesce (b ''documentype'') (b ''documentType'')) (b ''type'')
      in
      (case (b ''sid'', docurlRaw, documentypeRaw) of
         (Some s, Some rawUrl, Some rawType) \<Rightarrow>
           if s = [] \<or> rawUrl = [] \<or> rawType = []
           then Inl (Json 400 [(''error'', ''Missing required fields: sid, docurl, documentype'')])
           else
             let docurl = leadingSlash (normalizeDocUrl p rawUrl);
                 documentype = toLowerCase p (trim rawType)
             in
             (case resolveModel p documentype of
                None \<Rightarrow>
                  Inl (Json 400
                    [(''error'', ''Invalid documentype (unknown model)''),
                     (''hint'', ''Use a known alias (skills/curriculam/inters/placed) or a Mongoose model name'')])
              | Some Inherited \<Rightarrow>
                  Inl (Json 400
                    [(''error'', ''Selected documentype/model does not support status updates'')])
              | Some (Registered m) \<Rightarrow>
                  if \<not> schemaPath p m ''status''
                  then Inl (Json 400
                    [(''error'', ''Selected documentype/model does not support status updates'')])
                  else if \<not> schemaPath p m ''sid''
                  then Inl (Json 400
                    [(''error'', ''Selected documentype/model does not have sid field'')])
                  else
                    (case find (schemaPath p m) urlFieldCandidates of
                       None \<Rightarrow>
                         Inl (Json 400
                           [(''error'',
                             ''Selected documentype/model does not have a url field to match docurl'')])
                     | Some urlField \<Rightarrow> Inr (m, urlField, s, docurl)))
       | _ \<Rightarrow> Inl (Json 400 [(''error'', ''Missing required fields: sid, docurl, documentype'')])))"

text \<open>The same for the reject route, which also needs the description.\<close>

definition rejectTarget ::
    "platform \<Rightarrow> (string \<Rightarrow> string option)
      \<Rightarrow> http + (model \<times> string \<times> string \<times> string \<times> string)" where
  "rejectTarget p b =
     (let docurlRaw = coalesce (coalesce (b ''docurl'') (b ''docUrl'')) (b ''url'');
          documentypeRaw = coalesce (coalesce (b ''documentype'') (b ''documentType'')) (b ''type'')
      in
      (case (b ''sid'', docurlRaw, documentypeRaw, b ''description'') of
         (Some s, Some rawUrl, Some rawType, Some text) \<Rightarrow>
           if s = [] \<or> rawUrl = [] \<or> rawType = [] \<or> text = []
           then Inl (Json 400
             [(''error'', ''Missing required fields: sid, url (or docurl), documentType, description'')])
           else
             let docurl = leadingSlash (normalizeDocUrl p rawUrl);
                 documentype = toLowerCase p (trim rawType)
             in
             (case resolveModel p documentype of
                None \<Rightarrow>
                  Inl (Json 400
                    [(''error'', ''Invalid documentType (unknown model)''),
                     (''hint'', ''Use a known alias (skill/curriculam/internship/placement) or a Mongoose model name'')])
              | Some Inherited \<Rightarrow>
                  Inl (Json 400
                    [(''error'', ''Selected documentType/model does not support status updates'')])
              | Some (Registered m) \<Rightarrow>
                  if \<not> schemaPath p m ''status''
                  then Inl (Json 400
                    [(''error'', ''Selected documentType/model does not support status updates'')])
                  else if \<not> schemaPath p m ''description''
                  then Inl (Json 400
                    [(''error'', ''Selected documentType/model does not support rejection description'')])
                  else if \<not> schemaPath p m ''sid''
                  then Inl (Json 400
                    [(''error'', ''Selected documentType/model does not have sid field'')])
                  else
                    (case find (schemaPath p m) urlFieldCandidates of
                       None \<Rightarrow>
                         Inl (Json 400
                           [(''error'',
                             ''Selected documentType/model does not have a url field to match url'')])
                     | Some urlField \<Rightarrow> Inr (m, urlField, s, docurl, text)))
       | _ \<Rightarrow>
           Inl (Json 400
             [(''error'', ''Missing required fields: sid, url (or docurl), documentType, description'')])))"

text \<open>
  The filter \<^verbatim>\<open>{ sid: String(sid), [urlField]: docurl }\<close>. Of the candidate url fields
  the stored documents carry \<^verbatim>\<open>url\<close> only; a field a document does not have equals no
  string.
\<close>

definition path :: "string \<Rightarrow> ('a stored_scheme) \<Rightarrow> string option" where
  "path field doc = (if field = ''url'' then url doc else None)"

definition matches :: "string \<Rightarrow> string \<Rightarrow> string \<Rightarrow> ('a stored_scheme) \<Rightarrow> bool" where
  "matches s urlField docurl doc = (sid doc = s \<and> path urlField doc = Some docurl)"

text \<open>
  \<^verbatim>\<open>{ $set: { status: 'accepted' }, $unset: { description: '' } }\<close> and
  \<^verbatim>\<open>{ $set: { status: 'rejected', description: String(description) } }\<close>.
\<close>

datatype change = Accept | Reject string

definition applyChange :: "change \<Rightarrow> ('a stored_scheme) \<Rightarrow> ('a stored_scheme)" where
  "applyChange c doc =
     (case c of
        Accept \<Rightarrow> doc\<lparr>status := Some ''accepted'', description := None\<rparr>
      | Reject text \<Rightarrow> doc\<lparr>status := Some ''rejected'', description := Some text\<rparr>)"

text \<open>
  \<^verbatim>\<open>findOneAndUpdate\<close>: the first document of the collection that matches the filter is
  updated; the second component is the updated document, or \<open>None\<close> (null) when no document
  matches.
\<close>

fun findOneAndUpdate :: "('a \<Rightarrow> bool) \<Rightarrow> ('a \<Rightarrow> 'a) \<Rightarrow> 'a list \<Rightarrow> 'a list \<times> 'a option" where
  "findOneAndUpdate flt upd [] = ([], None)"
| "findOneAndUpdate flt upd (d # ds) =
     (if flt d then (upd d # ds, Some (upd d))
      else (case findOneAndUpdate flt upd ds of (ds', updated) \<Rightarrow> (d # ds', updated)))"

text \<open>
  The call on the resolved model: the update of that model's collection. Student and faculty
  documents have no url field, so the filter matches none of them. The flag says whether a
  document was updated.
\<close>

definition modelFindOneAndUpdate ::
    "model \<Rightarrow> string \<Rightarrow> string \<Rightarrow> string \<Rightarrow> change \<Rightarrow> store \<Rightarrow> store \<times> bool" where
  "modelFindOneAndUpdate m s urlField docurl c st =
     (case m of
        Student \<Rightarrow> (st, False)
      | Faculty \<Rightarrow> (st, False)
      | GPA \<Rightarrow>
          (case findOneAndUpdate (matches s urlField docurl) (applyChange c) (coll_GPA st) of
             (ds, updated) \<Rightarrow> (st\<lparr>coll_GPA := ds\<rparr>, updated \<noteq> None))
      | Activities \<Rightarrow>
          (case findOneAndUpdate (matches s urlField docurl) (applyChange c) (coll_Activities st) of
             (ds, updated) \<Rightarrow> (st\<lparr>coll_Activities := ds\<rparr>, updated \<noteq> None))
      | Extracurriculam \<Rightarrow>
          (case findOneAndUpdate (matches s urlField docurl) (applyChange c)
                  (coll_Extracurriculam st) of
             (ds, updated) \<Rightarrow> (st\<lparr>coll_Extracurriculam := ds\<rparr>, updated \<noteq> None))
      | Interned \<Rightarrow>
          (case findOneAndUpdate (matches s urlField docurl) (applyChange c) (coll_Interned st) of
             (ds, updated) \<Rightarrow> (st\<lparr>coll_Interned := ds\<rparr>, updated \<noteq> None))
      | Company \<Rightarrow>
          (case findOneAndUpdate (matches s urlField docurl) (applyChange c) (coll_Company st) of
             (ds, updated) \<Rightarrow> (st\<lparr>coll_Company := ds\<rparr>, updated \<noteq> None))
      | Skill \<Rightarrow>
          (case findOneAndUpdate (matches s urlField docurl) (applyChange c) (coll_Skill st) of
             (ds, updated) \<Rightarrow> (st\<lparr>coll_Skill := ds\<rparr>, updated \<noteq> None)))"

text \<open>
  \<^verbatim>\<open>POST /api/skills/accept\<close> and \<^verbatim>\<open>POST /api/skills/reject\<close>, behind
  \<open>authenticateAdmin\<close>: the response and the store afterwards. A rejected query or a
  failed update validator (\<^verbatim>\<open>runValidators: true\<close>, reject only) is caught and answered
  with 500.
\<close>

definition acceptDocument :: "platform \<Rightarrow> db \<Rightarrow> request \<Rightarrow> http \<times> db" where
  "acceptDocument p db req =
     (case authenticateAdmin (jwtVerify p) db req of
        Inl denied \<Rightarrow> (denied, db)
      | Inr faculty \<Rightarrow>
          (case acceptTarget p (body req) of
             Inl invalid \<Rightarrow> (invalid, db)
           | Inr (m, urlField, s, docurl) \<Rightarrow>
               (case db of
                  None \<Rightarrow> (Json 500 [(''error'', ''Internal server error'')], db)
                | Some st \<Rightarrow>
                    (case modelFindOneAndUpdate m s urlField docurl Accept st of
                       (st', updated) \<Rightarrow>
                         if \<not> updated
                         then (Json 404 [(''error'', ''Document not found for given sid and docurl'')],
                               Some st')
                         else (Json 200 [(''message'', ''successfully accepted'')], Some st')))))"

definition rejectDocument :: "platform \<Rightarrow> db \<Rightarrow> request \<Rightarrow> http \<times> db" where
  "rejectDocument p db req =
     (case authenticateAdmin (jwtVerify p) db req of
        Inl denied \<Rightarrow> (denied, db)
      | Inr faculty \<Rightarrow>
          (case rejectTarget p (body req) of
             Inl invalid \<Rightarrow> (invalid, db)
           | Inr (m, urlField, s, docurl, text) \<Rightarrow>
               (case db of
                  None \<Rightarrow> (Json 500 [(''error'', ''Internal server error'')], db)
                | Some st \<Rightarrow>
                    if \<not> (validators p m ''status'' ''rejected'' \<and> validators p m ''description'' text)
                    then (Json 500 [(''error'', ''Internal server error'')], db)
                    else
                      (case modelFindOneAndUpdate m s urlField docurl (Reject text) st of
                         (st', updated) \<Rightarrow>
                           if \<not> updated
                           then (Json 404 [(''error'', ''Document not found for given sid and url'')],
                                 Some st')
                           else (Json 200
                                   [(''message'', ''successfully rejected''), (''description'', text)],
                                 Some st')))))"

section \<open>Client reconnectors\<close>

text \<open>
  The browser's \<^verbatim>\<open>EventSource\<close> has a ready state. Before it dispatches an error event
  the transport has set the state itself: \<open>CONNECTING\<close> when it is going to reconnect on
  its own, \<open>CLOSED\<close> when it has given up. A closed source dispatches nothing.
\<close>

datatype readyState = CONNECTING | OPEN | CLOSED

text \<open>
  The student hooks \<^verbatim>\<open>useSkillsSSE\<close>, \<^verbatim>\<open>useAcademicsSSE\<close> and
  \<^verbatim>\<open>useCurricularSSE\<close> have the same state and the same handlers (the texts of the two
  error handlers are the same in all three; the text of the parse error is a parameter).
  \<open>eventSource\<close> is \<open>None\<close> as long as no connection was created. For
  \<^verbatim>\<open>useAcademicsSSE\<close> the flag \<open>enabled\<close> below stands for
  \<^verbatim>\<open>enabled && studentId\<close>.
\<close>

record 'd hook =
  items :: "'d list"
  loading :: bool
  error :: "string option"
  isConnected :: bool
  eventSource :: "readyState option"

definition initialHook :: "'d hook" where
  "initialHook = \<lparr>items = [], loading = True, error = None, isConnected = False, eventSource = None\<rparr>"

definition setupSSE :: "bool \<Rightarrow> string option \<Rightarrow> 'd hook \<Rightarrow> 'd hook" where
  "setupSSE enabled token h =
     (if \<not> enabled then h\<lparr>loading := False\<rparr>
      else if \<not> truthy token
      then h\<lparr>loading := False, error := Some ''Authentication token not found. Please log in again.''\<rparr>
      else h\<lparr>loading := True, error := None, eventSource := Some CONNECTING\<rparr>)"

text \<open>
  The handlers. An error event reaches both \<^verbatim>\<open>addEventListener('error', ...)\<close> and
  \<^verbatim>\<open>onerror\<close>, in the order they were registered.
\<close>

definition onUpdate :: "string \<Rightarrow> 'd list option \<Rightarrow> 'd hook \<Rightarrow> 'd hook" where
  "onUpdate parseErrorText parsed h =
     (case parsed of
        Some docs \<Rightarrow> h\<lparr>items := docs, isConnected := True, loading := False\<rparr>
      | None \<Rightarrow> h\<lparr>error := Some parseErrorText\<rparr>)"

definition errorListener :: "'d hook \<Rightarrow> 'd hook" where
  "errorListener h =
     h\<lparr>isConnected := False, error := Some ''Connection lost. Retrying...'',
       eventSource := Some CLOSED\<rparr>"

definition onerror :: "'d hook \<Rightarrow> 'd hook" where
  "onerror h =
     h\<lparr>isConnected := False, error := Some ''Failed to connect to real-time updates'',
       eventSource := Some CLOSED\<rparr>"

text \<open>
  What reaches a mounted hook: a named data event (with the parsed documents, \<open>None\<close>
  when \<^verbatim>\<open>JSON.parse\<close> throws), a transport error, or the unmount.
\<close>

datatype 'd incoming = Update "'d list option" | TransportError readyState | Unmount

definition live :: "readyState option \<Rightarrow> bool" where
  "live es = (es = Some CONNECTING \<or> es = Some OPEN)"

fun hookStep :: "string \<Rightarrow> 'd hook \<Rightarrow> 'd incoming \<Rightarrow> 'd hook" where
  "hookStep parseErrorText h (Update parsed) =
     (if live (eventSource h) then onUpdate parseErrorText parsed (h\<lparr>eventSource := Some OPEN\<rparr>) else h)"
| "hookStep parseErrorText h (TransportError rs) =
     (if live (eventSource h) then onerror (errorListener (h\<lparr>eventSource := Some rs\<rparr>)) else h)"
| "hookStep parseErrorText h Unmount =
     (if eventSource h = None then h else h\<lparr>eventSource := Some CLOSED\<rparr>)"

text \<open>
  The admin page \<^verbatim>\<open>RequestsPage\<close>. It has no error state; what it surfaces are
  toasts. \<open>reconnectTimers\<close> counts the timeouts set by \<^verbatim>\<open>onerror\<close> that have not
  fired yet.
\<close>

datatype toast = NewPendingRequests nat

record page =
  pageDocuments :: "pending_doc list"
  pageTotalCount :: nat
  pageLoading :: bool
  studentMap :: "string list"
  isLiveConnected :: bool
  eventSourceRef :: "readyState option"
  previousCountRef :: nat
  toasts :: "toast list"
  reconnectTimers :: nat

definition connectSSE :: "page \<Rightarrow> page" where
  "connectSSE pg = pg\<lparr>eventSourceRef := Some CONNECTING\<rparr>"

text \<open>The effect that sets the connection up: without a stored admin token it does nothing.\<close>

definition pageMount :: "string option \<Rightarrow> page \<Rightarrow> page" where
  "pageMount adminToken pg = (if \<not> truthy adminToken then pg else connectSSE pg)"

definition pageOnOpen :: "page \<Rightarrow> page" where
  "pageOnOpen pg = pg\<lparr>isLiveConnected := True\<rparr>"

definition pageOnPendingDocuments :: "pending_snapshot option \<Rightarrow> page \<Rightarrow> page" where
  "pageOnPendingDocuments parsed pg =
     (case parsed of
        None \<Rightarrow> pg
      | Some d \<Rightarrow>
          pg\<lparr>pageDocuments := documents d,
             pageTotalCount := totalCount d,
             pageLoading := False,
             studentMap := remdups (map sid (documents d)),
             toasts :=
               (if previousCountRef pg > 0 \<and> totalCount d \<noteq> previousCountRef pg
                   \<and> totalCount d > previousCountRef pg
                then toasts pg @ [NewPendingRequests (totalCount d - previousCountRef pg)]
                else toasts pg),
             previousCountRef := totalCount d\<rparr>)"

definition pageOnError :: "page \<Rightarrow> page" where
  "pageOnError pg =
     pg\<lparr>isLiveConnected := False, pageLoading := False, reconnectTimers := Suc (reconnectTimers pg)\<rparr>"

definition pageOnTimeout :: "page \<Rightarrow> page" where
  "pageOnTimeout pg =
     (let pg' = pg\<lparr>reconnectTimers := reconnectTimers pg - 1\<rparr>
      in if eventSourceRef pg' = Some CLOSED then connectSSE pg' else pg')"

datatype pageEvent =
  SourceOpen | PendingData "pending_snapshot option" | SourceError readyState | TimeoutFires
| Cleanup

fun pageStep :: "page \<Rightarrow> pageEvent \<Rightarrow> page" where
  "pageStep pg SourceOpen =
     (if live (eventSourceRef pg) then pageOnOpen (pg\<lparr>eventSourceRef := Some OPEN\<rparr>) else pg)"
| "pageStep pg (PendingData parsed) =
     (if live (eventSourceRef pg)
      then pageOnPendingDocuments parsed (pg\<lparr>eventSourceRef := Some OPEN\<rparr>) else pg)"
| "pageStep pg (SourceError rs) =
     (if live (eventSourceRef pg) then pageOnError (pg\<lparr>eventSourceRef := Some rs\<rparr>) else pg)"
| "pageStep pg TimeoutFires = (if reconnectTimers pg > 0 then pageOnTimeout pg else pg)"
| "pageStep pg Cleanup = pg\<lparr>eventSourceRef := None\<rparr>"

text \<open>
  The guard of \<^verbatim>\<open>handleRequestAction\<close> before a reject request is sent: the
  description that goes into the request body, or \<open>None\<close> when no request is sent
  (the prompt was cancelled, or the trimmed reason is empty).
\<close>

definition promptedDescription :: "string option \<Rightarrow> string option" where
  "promptedDescription reason =
     (case reason of
        None \<Rightarrow> None
      | Some r \<Rightarrow> if trim r = [] then None else Some (trim r))"

section \<open>Example data\<close>

text \<open>
  A small store, a token verifier and a platform, used to run the definitions on concrete
  inputs: two students, one faculty member, two semester records uploaded in the order of
  the semesters, and four submissions.
\<close>

definition exampleSkill :: submission where
  "exampleSkill =
     \<lparr>oid = ''k1'', sid = ''s1'', url = Some ''/uploads/python.pdf'', status = Some ''pending'',
      description = None, createdAt = Some 2000, activities = None, companyname = None,
      duration = None, companytype = None, skillname = Some ''Python''\<rparr>"

definition exampleOldSkill :: submission where
  "exampleOldSkill =
     \<lparr>oid = ''k0'', sid = ''s1'', url = Some ''/uploads/c.pdf'', status = Some ''accepted'',
      description = None, createdAt = Some 1000, activities = None, companyname = None,
      duration = None, companytype = None, skillname = Some ''C''\<rparr>"

definition exampleIntern :: submission where
  "exampleIntern =
     \<lparr>oid = ''i1'', sid = ''s2'', url = Some ''/uploads/offer.pdf'', status = Some ''pending'',
      description = None, createdAt = Some 3000, activities = None, companyname = Some ''Acme'',
      duration = Some ''3 months'', companytype = Some ''private'', skillname = None\<rparr>"

definition exampleExtra :: submission where
  "exampleExtra =
     \<lparr>oid = ''x1'', sid = ''s1'', url = None, status = Some ''pending'',
      description = Some ''College chess team'', createdAt = Some 2500, activities = Some ''Chess'',
      companyname = None, duration = None, companytype = None, skillname = None\<rparr>"

definition exampleSem1 :: academic where
  "exampleSem1 =
     \<lparr>oid = ''g1'', sid = ''s1'', url = Some ''/uploads/sem1.pdf'', status = None,
      description = None, createdAt = Some 100, gpa = 8, sem = 1\<rparr>"

definition exampleSem2 :: academic where
  "exampleSem2 =
     \<lparr>oid = ''g2'', sid = ''s1'', url = Some ''/uploads/sem2.pdf'', status = None,
      description = None, createdAt = Some 200, gpa = 9, sem = 2\<rparr>"

definition exampleStore :: store where
  "exampleStore =
     \<lparr>coll_Student = [\<lparr>oid = ''u1'', sid = ''s1'', emailid = ''a@x.org''\<rparr>,
                      \<lparr>oid = ''u2'', sid = ''s2'', emailid = ''b@x.org''\<rparr>],
      coll_Faculty = [\<lparr>oid = ''f1'', facultyid = ''F-1''\<rparr>],
      coll_GPA = [exampleSem2, exampleSem1],
      coll_Activities = [],
      coll_Extracurriculam = [exampleExtra],
      coll_Interned = [exampleIntern],
      coll_Company = [],
      coll_Skill = [exampleOldSkill, exampleSkill]\<rparr>"

definition exampleVerify :: "string \<Rightarrow> claims option" where
  "exampleVerify token =
     (if token = ''student-token''
      then Some \<lparr>studentId = Some ''u1'', facultyId = None, role = None\<rparr>
      else if token = ''admin-token''
      then Some \<lparr>studentId = None, facultyId = Some ''f1'', role = Some ''admin''\<rparr>
      else None)"

text \<open>
  A stand-in for the URL parser on the inputs used below: an absolute \<^verbatim>\<open>http://\<close>
  address loses its host, a path gets its leading slash.
\<close>

definition examplePathname :: "string \<Rightarrow> string option" where
  "examplePathname str =
     (if take 7 str = ''http://''
      then Some (dropWhile (\<lambda>c. c \<noteq> CHR ''/'') (drop 7 str))
      else if take 1 str = ''/'' then Some str
      else Some (CHR ''/'' # str))"

text \<open>A stand-in for \<^verbatim>\<open>toLowerCase\<close> on the inputs used below: the ASCII letters.\<close>

definition exampleLowerCase :: "string \<Rightarrow> string" where
  "exampleLowerCase str =
     map (\<lambda>c. case map_of (zip ''ABCDEFGHIJKLMNOPQRSTUVWXYZ'' ''abcdefghijklmnopqrstuvwxyz'') c of
               Some l \<Rightarrow> l
             | None \<Rightarrow> c) str"

definition exampleSchema :: "model \<Rightarrow> string \<Rightarrow> bool" where
  "exampleSchema m field =
     (case m of
        Student \<Rightarrow> field \<in> set [''sid'', ''sname'', ''emailid'', ''password'', ''degree'', ''course'']
      | Faculty \<Rightarrow> field \<in> set [''facultyname'', ''facultyid'', ''emailid'', ''pass'']
      | GPA \<Rightarrow> field \<in> set [''sid'', ''gpa'', ''url'', ''sem'']
      | Activities \<Rightarrow> field \<in> set [''sid'', ''activities'', ''description'', ''url'', ''status'']
      | Extracurriculam \<Rightarrow> field \<in> set [''sid'', ''activities'', ''description'', ''url'', ''status'']
      | Interned \<Rightarrow>
          field \<in> set [''sid'', ''companyname'', ''duration'', ''companytype'', ''url'', ''status'',
                        ''description'']
      | Company \<Rightarrow>
          field \<in> set [''sid'', ''companyname'', ''companytype'', ''url'', ''status'', ''description'']
      | Skill \<Rightarrow> field \<in> set [''sid'', ''skillname'', ''url'', ''status'', ''description''])"

definition examplePlatform :: platform where
  "examplePlatform =
     \<lparr>jwtVerify = exampleVerify,
      pathname = examplePathname,
      decodeURIComponent = Some,
      toLowerCase = exampleLowerCase,
      modelNames =
        [(''Student'', Student), (''Faculty'', Faculty), (''GPA'', GPA), (''Activities'', Activities),
         (''Extracurriculam'', Extracurriculam), (''Interned'', Interned), (''Company'', Company),
         (''Skill'', Skill)],
      schemaPath = exampleSchema,
      validators = (\<lambda>m field v. True)\<rparr>"

definition anonymousRequest :: request where
  "anonymousRequest =
     \<lparr>authorization = None, query_token = None, params_sid = [], body = (\<lambda>field. None)\<rparr>"

definition studentRequest :: "string \<Rightarrow> request" where
  "studentRequest target =
     \<lparr>authorization = None, query_token = Some ''student-token'', params_sid = target,
      body = (\<lambda>field. None)\<rparr>"

definition adminRequest :: "(string \<times> string) list \<Rightarrow> request" where
  "adminRequest entries =
     \<lparr>authorization = Some ''Bearer admin-token'', query_token = None, params_sid = [],
      body = map_of entries\<rparr>"

text \<open>
  A second store for the order of the snapshots: it adds submissions that have no creation
  time, and curricular activities.
\<close>

definition exampleUndatedSkill :: submission where
  "exampleUndatedSkill =
     \<lparr>oid = ''k2'', sid = ''s1'', url = Some ''/uploads/go.pdf'', status = Some ''pending'',
      description = None, createdAt = None, activities = None, companyname = None,
      duration = None, companytype = None, skillname = Some ''Go''\<rparr>"

definition exampleActivity :: submission where
  "exampleActivity =
     \<lparr>oid = ''a1'', sid = ''s1'', url = None, status = Some ''pending'',
      description = Some ''Second place'', createdAt = Some 500, activities = Some ''Hackathon'',
      companyname = None, duration = None, companytype = None, skillname = None\<rparr>"

definition exampleUndatedActivity :: submission where
  "exampleUndatedActivity =
     \<lparr>oid = ''a0'', sid = ''s1'', url = None, status = Some ''pending'',
      description = Some ''Organiser'', createdAt = None, activities = Some ''Quiz'',
      companyname = None, duration = None, companytype = None, skillname = None\<rparr>"

definition orderStore :: store where
  "orderStore =
     exampleStore
       \<lparr>coll_Activities := [exampleUndatedActivity, exampleActivity],
        coll_Skill := [exampleUndatedSkill, exampleOldSkill, exampleSkill]\<rparr>"

text \<open>
  A third store for the review actions: before the skill of student \<open>s1\<close> the skill
  collection holds a document of another student with the same location, and the
  collection of curricular activities holds a document of \<open>s1\<close> with that location.
\<close>

definition exampleDecoySkill :: submission where
  "exampleDecoySkill =
     \<lparr>oid = ''k9'', sid = ''s2'', url = Some ''/uploads/python.pdf'', status = Some ''pending'',
      description = None, createdAt = Some 1500, activities = None, companyname = None,
      duration = None, companytype = None, skillname = Some ''Python''\<rparr>"

definition exampleDecoyActivity :: submission where
  "exampleDecoyActivity =
     \<lparr>oid = ''a9'', sid = ''s1'', url = Some ''/uploads/python.pdf'', status = Some ''pending'',
      description = Some ''Workshop'', createdAt = Some 1600, activities = Some ''Python club'',
      companyname = None, duration = None, companytype = None, skillname = None\<rparr>"

definition reviewStore :: store where
  "reviewStore =
     exampleStore
       \<lparr>coll_Activities := [exampleDecoyActivity],
        coll_Skill := [exampleDecoySkill, exampleOldSkill, exampleSkill]\<rparr>"

definition skillReviewRequest :: "string \<Rightarrow> request" where
  "skillReviewRequest reason =
     adminRequest [(''sid'', ''s1''), (''url'', ''http://localhost:5000/uploads/python.pdf''),
                   (''documentType'', ''Skill ''), (''description'', reason)]"

text \<open>The skills snapshot of student \<open>s1\<close> in the example store.\<close>

definition exampleSkills :: "submission snapshot" where
  "exampleSkills =
     \<lparr>message = ''Skills documents retrieved successfully'',
      totalCount = 2,
      documents =
        [exampleSkill\<lparr>url := Some ''http://localhost:5000/uploads/python.pdf''\<rparr>,
         exampleOldSkill\<lparr>url := Some ''http://localhost:5000/uploads/c.pdf''\<rparr>]\<rparr>"

text \<open>
  A review request of the admin for the internship of the example store, as the admin page
  sends it: the absolute address of the document taken from the snapshot, and a description.
\<close>

definition reviewRequest :: "string \<Rightarrow> request" where
  "reviewRequest text =
     adminRequest [(''sid'', ''s2''), (''url'', ''http://localhost:5000/uploads/offer.pdf''),
                   (''documentType'', '' Internship''), (''description'', text)]"

text \<open>The admin snapshot of the example store, as \<open>fetchPendingDocuments\<close> computes it.\<close>

definition examplePending :: pending_snapshot where
  "examplePending =
     \<lparr>message = ''Pending documents retrieved successfully'',
      totalCount = 2,
      documents =
        [submission.extend (exampleIntern\<lparr>url := Some ''http://localhost:5000/uploads/offer.pdf''\<rparr>)
           (pending_doc.fields ''internship'' (Some ''Acme'') (Some ''3 months - private'')),
         submission.extend (exampleSkill\<lparr>url := Some ''http://localhost:5000/uploads/python.pdf''\<rparr>)
           (pending_doc.fields ''skill'' (Some ''Python'') (Some ''Skill Certificate''))],
      breakdown = \<lparr>curriculam = 0, internships = 1, placements = 0, skills = 1\<rparr>\<rparr>"

text \<open>
  The admin page with an open connection, and a skills hook that has just set up its
  connection.
\<close>

definition examplePage :: page where
  "examplePage =
     \<lparr>pageDocuments = [], pageTotalCount = 0, pageLoading = True, studentMap = [],
      isLiveConnected = True, eventSourceRef = Some OPEN, previousCountRef = 0, toasts = [],
      reconnectTimers = 0\<rparr>"

definition exampleHook :: "submission hook" where
  "exampleHook = setupSSE True (Some ''student-token'') initialHook"

section \<open>Properties of the snapshots\<close>

lemmas example_defs = exampleSkill_def exampleOldSkill_def exampleIntern_def exampleExtra_def
  exampleSem1_def exampleSem2_def exampleStore_def

lemma created_withFullUrl [simp]: "created (withFullUrl PORT d) = created d"
  by (simp add: created_def withFullUrl_def)

lemma sortNewestFirst_sorted:
  "sorted_wrt (\<lambda>a b. created b \<le> created a) (sortNewestFirst docs)"
proof -
  have "sorted (map (\<lambda>d. - created d) (sortNewestFirst docs))"
    unfolding sortNewestFirst_def by (rule sorted_sort_key)
  then show ?thesis by (simp add: sorted_map)
qed

lemma length_sortNewestFirst [simp]: "length (sortNewestFirst docs) = length docs"
  by (simp add: sortNewestFirst_def)

lemma academics_sorted:
  "sorted_wrt (\<lambda>a b. sem a \<le> sem b) (map (withFullUrl PORT) (sort_key sem rs))"
proof -
  have "sorted (map sem (sort_key sem rs))" by (rule sorted_sort_key)
  then have "sorted_wrt (\<lambda>a b. sem a \<le> sem b) (sort_key sem rs)" by (simp add: sorted_map)
  then show ?thesis by (simp add: sorted_wrt_map withFullUrl_def)
qed

lemma example_pending:
  "\<exists>p. fetchPendingDocuments None (Some exampleStore) = Some p \<and> map oid (documents p) = [''i1'', ''k1'']
     \<and> breakdown p = \<lparr>curriculam = 0, internships = 1, placements = 0, skills = 1\<rparr>"
  by (simp add: fetchPendingDocuments_def example_defs isPending_def withType_def
      withFullUrl_def sortNewestFirst_def created_def submission.defs)

lemma example_skills:
  "\<exists>k. fetchStudentSkills None (Some exampleStore) ''s1'' = Some k \<and> map oid (documents k) = [''k1'', ''k0'']"
  by (simp add: fetchStudentSkills_def example_defs withFullUrl_def sortNewestFirst_def created_def)

lemma example_curricular:
  "\<exists>c. fetchStudentCurricular None (Some exampleStore) ''s1'' = Some c \<and> documents c = []"
  by (simp add: fetchStudentCurricular_def example_defs withFullUrl_def sortNewestFirst_def created_def)

lemma example_academics:
  "\<exists>a. fetchStudentAcademics None (Some exampleStore) ''s1'' = Some a \<and> map oid (records a) = [''g1'', ''g2'']"
  by (simp add: fetchStudentAcademics_def example_defs withFullUrl_def)

text \<open>
  C10. In every snapshot payload the reported count is the length of the list of documents
  (or records) that comes with it, and in the admin snapshot the counts of the breakdown
  add up to the total count.
\<close>

theorem snapshot_counts:
  "(fetchPendingDocuments PORT db = Some p \<longrightarrow>
      totalCount p = length (documents p) \<and>
      curriculam (breakdown p) + internships (breakdown p) + placements (breakdown p)
        + skills (breakdown p) = totalCount p)
   \<and> (fetchStudentSkills PORT db s = Some k \<longrightarrow> totalCount k = length (documents k))
   \<and> (fetchStudentCurricular PORT db s = Some c \<longrightarrow> totalCount c = length (documents c))
   \<and> (fetchStudentAcademics PORT db s = Some a \<longrightarrow> snap_count a = length (records a))"
proof (intro conjI impI)
  assume "fetchPendingDocuments PORT db = Some p"
  then show "totalCount p = length (documents p)"
    by (auto simp: fetchPendingDocuments_def Let_def split: option.splits)
next
  assume "fetchPendingDocuments PORT db = Some p"
  then show "curriculam (breakdown p) + internships (breakdown p) + placements (breakdown p)
        + skills (breakdown p) = totalCount p"
    by (auto simp: fetchPendingDocuments_def Let_def split: option.splits)
next
  assume "fetchStudentSkills PORT db s = Some k"
  then show "totalCount k = length (documents k)"
    by (auto simp: fetchStudentSkills_def Let_def split: option.splits)
next
  assume "fetchStudentCurricular PORT db s = Some c"
  then show "totalCount c = length (documents c)"
    by (auto simp: fetchStudentCurricular_def Let_def split: option.splits)
next
  assume "fetchStudentAcademics PORT db s = Some a"
  then show "snap_count a = length (records a)"
    by (auto simp: fetchStudentAcademics_def Let_def split: option.splits)
qed

theorem snapshot_counts_witness:
  "\<exists>p k c a.
     fetchPendingDocuments None (Some exampleStore) = Some p
     \<and> fetchStudentSkills None (Some exampleStore) ''s1'' = Some k
     \<and> fetchStudentCurricular None (Some exampleStore) ''s1'' = Some c
     \<and> fetchStudentAcademics None (Some exampleStore) ''s1'' = Some a
     \<and> totalCount p = 2 \<and> length (documents p) = 2
     \<and> curriculam (breakdown p) + internships (breakdown p) + placements (breakdown p)
          + skills (breakdown p) = 2
     \<and> totalCount k = 2 \<and> length (documents k) = 2
     \<and> totalCount c = 0 \<and> length (documents c) = 0
     \<and> snap_count a = 2 \<and> length (records a) = 2"
proof -
  obtain p where p: "fetchPendingDocuments None (Some exampleStore) = Some p"
      "map oid (documents p) = [''i1'', ''k1'']"
    using example_pending by auto
  obtain k where k: "fetchStudentSkills None (Some exampleStore) ''s1'' = Some k"
      "map oid (documents k) = [''k1'', ''k0'']"
    using example_skills by auto
  obtain c where c: "fetchStudentCurricular None (Some exampleStore) ''s1'' = Some c"
      "documents c = []"
    using example_curricular by auto
  obtain a where a: "fetchStudentAcademics None (Some exampleStore) ''s1'' = Some a"
      "map oid (records a) = [''g1'', ''g2'']"
    using example_academics by auto
  have lp: "length (documents p) = 2" using arg_cong [OF p(2), of length] by simp
  have lk: "length (documents k) = 2" using arg_cong [OF k(2), of length] by simp
  have la: "length (records a) = 2" using arg_cong [OF a(2), of length] by simp
  from snapshot_counts [of None "Some exampleStore" p "''s1''" k c a] p(1) k(1) c(1) a(1)
  have "totalCount p = length (documents p)"
    "curriculam (breakdown p) + internships (breakdown p) + placements (breakdown p)
       + skills (breakdown p) = totalCount p"
    "totalCount k = length (documents k)" "totalCount c = length (documents c)"
    "snap_count a = length (records a)"
    by simp_all
  with p(1) k(1) c(1) a(1) lp lk la c(2) show ?thesis by simp
qed


lemma fetchPending_example:
  "fetchPendingDocuments None (Some exampleStore) = Some examplePending"
  by (simp add: fetchPendingDocuments_def examplePending_def example_defs isPending_def withType_def
      withFullUrl_def sortNewestFirst_def created_def submission.defs fullUrl_def port_def tmpl_def)

lemma sortNewestFirst_order:
  "sorted_wrt
     (\<lambda>a b. (case createdAt b of None \<Rightarrow> 0 | Some t \<Rightarrow> t)
              \<le> (case createdAt a of None \<Rightarrow> 0 | Some t \<Rightarrow> t))
     (sortNewestFirst docs)"
  using sortNewestFirst_sorted [of docs] by (simp add: created_def)

lemma order_skills:
  "\<exists>k. fetchStudentSkills None (Some orderStore) ''s1'' = Some k
      \<and> map oid (documents k) = [''k1'', ''k0'', ''k2'']
      \<and> map createdAt (documents k) = [Some 2000, Some 1000, None] \<and> totalCount k = 3"
  by (simp add: fetchStudentSkills_def orderStore_def example_defs exampleUndatedSkill_def
      withFullUrl_def sortNewestFirst_def created_def)

lemma order_curricular:
  "\<exists>c. fetchStudentCurricular None (Some orderStore) ''s1'' = Some c
      \<and> map oid (documents c) = [''a1'', ''a0'']
      \<and> map createdAt (documents c) = [Some 500, None] \<and> totalCount c = 2"
  by (simp add: fetchStudentCurricular_def orderStore_def example_defs exampleActivity_def
      exampleUndatedActivity_def withFullUrl_def sortNewestFirst_def created_def)

lemma order_pending:
  "\<exists>p. fetchPendingDocuments None (Some orderStore) = Some p
      \<and> map oid (documents p) = [''i1'', ''k1'', ''a1'', ''a0'', ''k2'']
      \<and> map createdAt (documents p) = [Some 3000, Some 2000, Some 500, None, None]
      \<and> totalCount p = 5"
  by (simp add: fetchPendingDocuments_def orderStore_def example_defs exampleUndatedSkill_def
      exampleActivity_def exampleUndatedActivity_def isPending_def withType_def
      withFullUrl_def sortNewestFirst_def created_def submission.defs)

lemma order_academics:
  "\<exists>a. fetchStudentAcademics None (Some orderStore) ''s1'' = Some a
      \<and> map oid (records a) = [''g1'', ''g2''] \<and> map sem (records a) = [1, 2]
      \<and> snap_count a = 2"
  by (simp add: fetchStudentAcademics_def orderStore_def example_defs withFullUrl_def)

text \<open>
  C5, as the code has it by design. The snapshots of skills and of curricular activities and
  the admin snapshot list their items newest first by creation time, a document without
  creation time counting as created at the epoch; the academics snapshot lists its records
  by semester, ascending. The count of an owner-scoped snapshot is the number of documents
  of that student in the collection; the count of the admin snapshot is the number of items
  it lists.
\<close>

theorem snapshot_order:
  "(fetchStudentSkills PORT (Some st) s = Some k \<longrightarrow>
      sorted_wrt
        (\<lambda>a b. (case createdAt b of None \<Rightarrow> 0 | Some t \<Rightarrow> t)
                 \<le> (case createdAt a of None \<Rightarrow> 0 | Some t \<Rightarrow> t))
        (documents k)
      \<and> totalCount k = length (filter (\<lambda>d. sid d = s) (coll_Skill st)))
   \<and> (fetchStudentCurricular PORT (Some st) s = Some c \<longrightarrow>
      sorted_wrt
        (\<lambda>a b. (case createdAt b of None \<Rightarrow> 0 | Some t \<Rightarrow> t)
                 \<le> (case createdAt a of None \<Rightarrow> 0 | Some t \<Rightarrow> t))
        (documents c)
      \<and> totalCount c = length (filter (\<lambda>d. sid d = s) (coll_Activities st)))
   \<and> (fetchPendingDocuments PORT (Some st) = Some p \<longrightarrow>
      sorted_wrt
        (\<lambda>a b. (case createdAt b of None \<Rightarrow> 0 | Some t \<Rightarrow> t)
                 \<le> (case createdAt a of None \<Rightarrow> 0 | Some t \<Rightarrow> t))
        (documents p)
      \<and> totalCount p = length (documents p))
   \<and> (fetchStudentAcademics PORT (Some st) s = Some a \<longrightarrow>
      sorted_wrt (\<lambda>x y. sem x \<le> sem y) (records a)
      \<and> snap_count a = length (filter (\<lambda>r. sid r = s) (coll_GPA st)))"
proof (intro conjI impI)
  assume "fetchStudentSkills PORT (Some st) s = Some k"
  then have k: "documents k
        = sortNewestFirst (map (withFullUrl PORT) (filter (\<lambda>d. sid d = s) (coll_Skill st)))"
    "totalCount k = length (documents k)"
    by (auto simp: fetchStudentSkills_def Let_def)
  show "sorted_wrt
        (\<lambda>a b. (case createdAt b of None \<Rightarrow> 0 | Some t \<Rightarrow> t)
                 \<le> (case createdAt a of None \<Rightarrow> 0 | Some t \<Rightarrow> t))
        (documents k)"
    unfolding k(1) by (rule sortNewestFirst_order)
  show "totalCount k = length (filter (\<lambda>d. sid d = s) (coll_Skill st))"
    unfolding k(2) k(1) by simp
next
  assume "fetchStudentCurricular PORT (Some st) s = Some c"
  then have c: "documents c
        = sortNewestFirst (map (withFullUrl PORT) (filter (\<lambda>d. sid d = s) (coll_Activities st)))"
    "totalCount c = length (documents c)"
    by (auto simp: fetchStudentCurricular_def Let_def)
  show "sorted_wrt
        (\<lambda>a b. (case createdAt b of None \<Rightarrow> 0 | Some t \<Rightarrow> t)
                 \<le> (case createdAt a of None \<Rightarrow> 0 | Some t \<Rightarrow> t))
        (documents c)"
    unfolding c(1) by (rule sortNewestFirst_order)
  show "totalCount c = length (filter (\<lambda>d. sid d = s) (coll_Activities st))"
    unfolding c(2) c(1) by simp
next
  assume "fetchPendingDocuments PORT (Some st) = Some p"
  then have p: "\<exists>ds. documents p = sortNewestFirst ds" "totalCount p = length (documents p)"
    by (auto simp: fetchPendingDocuments_def Let_def)
  then obtain ds where ds: "documents p = sortNewestFirst ds" by auto
  show "sorted_wrt
        (\<lambda>a b. (case createdAt b of None \<Rightarrow> 0 | Some t \<Rightarrow> t)
                 \<le> (case createdAt a of None \<Rightarrow> 0 | Some t \<Rightarrow> t))
        (documents p)"
    unfolding ds by (rule sortNewestFirst_order)
  show "totalCount p = length (documents p)" by (rule p(2))
next
  assume "fetchStudentAcademics PORT (Some st) s = Some a"
  then have a: "records a
        = map (withFullUrl PORT) (sort_key sem (filter (\<lambda>r. sid r = s) (coll_GPA st)))"
    "snap_count a = length (records a)"
    by (auto simp: fetchStudentAcademics_def Let_def)
  show "sorted_wrt (\<lambda>x y. sem x \<le> sem y) (records a)"
    unfolding a(1) by (rule academics_sorted)
  show "snap_count a = length (filter (\<lambda>r. sid r = s) (coll_GPA st))"
    unfolding a(2) a(1) by simp
qed

theorem snapshot_order_witness:
  "\<exists>k c p a.
     fetchStudentSkills None (Some orderStore) ''s1'' = Some k
     \<and> fetchStudentCurricular None (Some orderStore) ''s1'' = Some c
     \<and> fetchPendingDocuments None (Some orderStore) = Some p
     \<and> fetchStudentAcademics None (Some orderStore) ''s1'' = Some a
     \<and> map oid (documents k) = [''k1'', ''k0'', ''k2'']
     \<and> map createdAt (documents k) = [Some 2000, Some 1000, None]
     \<and> sorted_wrt
          (\<lambda>a b. (case createdAt b of None \<Rightarrow> 0 | Some t \<Rightarrow> t)
                   \<le> (case createdAt a of None \<Rightarrow> 0 | Some t \<Rightarrow> t))
          (documents k)
     \<and> totalCount k = 3
     \<and> length (filter (\<lambda>d. sid d = ''s1'') (coll_Skill orderStore)) = 3
     \<and> map oid (documents c) = [''a1'', ''a0'']
     \<and> map createdAt (documents c) = [Some 500, None]
     \<and> sorted_wrt
          (\<lambda>a b. (case createdAt b of None \<Rightarrow> 0 | Some t \<Rightarrow> t)
                   \<le> (case createdAt a of None \<Rightarrow> 0 | Some t \<Rightarrow> t))
          (documents c)
     \<and> totalCount c = 2
     \<and> length (filter (\<lambda>d. sid d = ''s1'') (coll_Activities orderStore)) = 2
     \<and> map oid (documents p) = [''i1'', ''k1'', ''a1'', ''a0'', ''k2'']
     \<and> map createdAt (documents p) = [Some 3000, Some 2000, Some 500, None, None]
     \<and> sorted_wrt
          (\<lambda>a b. (case createdAt b of None \<Rightarrow> 0 | Some t \<Rightarrow> t)
                   \<le> (case createdAt a of None \<Rightarrow> 0 | Some t \<Rightarrow> t))
          (documents p)
     \<and> totalCount p = 5 \<and> length (documents p) = 5
     \<and> map oid (records a) = [''g1'', ''g2''] \<and> map sem (records a) = [1, 2]
     \<and> sorted_wrt (\<lambda>x y. sem x \<le> sem y) (records a)
     \<and> snap_count a = 2
     \<and> length (filter (\<lambda>r. sid r = ''s1'') (coll_GPA orderStore)) = 2"
proof -
  obtain k where k: "fetchStudentSkills None (Some orderStore) ''s1'' = Some k"
      "map oid (documents k) = [''k1'', ''k0'', ''k2'']"
      "map createdAt (documents k) = [Some 2000, Some 1000, None]" "totalCount k = 3"
    using order_skills by auto
  obtain c where c: "fetchStudentCurricular None (Some orderStore) ''s1'' = Some c"
      "map oid (documents c) = [''a1'', ''a0'']"
      "map createdAt (documents c) = [Some 500, None]" "totalCount c = 2"
    using order_curricular by auto
  obtain p where p: "fetchPendingDocuments None (Some orderStore) = Some p"
      "map oid (documents p) = [''i1'', ''k1'', ''a1'', ''a0'', ''k2'']"
      "map createdAt (documents p) = [Some 3000, Some 2000, Some 500, None, None]"
      "totalCount p = 5"
    using order_pending by auto
  obtain a where a: "fetchStudentAcademics None (Some orderStore) ''s1'' = Some a"
      "map oid (records a) = [''g1'', ''g2'']" "map sem (records a) = [1, 2]" "snap_count a = 2"
    using order_academics by auto
  note t = snapshot_order [of None orderStore "''s1''" k c p a]
  from t k(1) have k1: "sorted_wrt
          (\<lambda>a b. (case createdAt b of None \<Rightarrow> 0 | Some t \<Rightarrow> t)
                   \<le> (case createdAt a of None \<Rightarrow> 0 | Some t \<Rightarrow> t))
          (documents k)"
    and k2: "totalCount k = length (filter (\<lambda>d. sid d = ''s1'') (coll_Skill orderStore))"
    by blast+
  from t c(1) have c1: "sorted_wrt
          (\<lambda>a b. (case createdAt b of None \<Rightarrow> 0 | Some t \<Rightarrow> t)
                   \<le> (case createdAt a of None \<Rightarrow> 0 | Some t \<Rightarrow> t))
          (documents c)"
    and c2: "totalCount c = length (filter (\<lambda>d. sid d = ''s1'') (coll_Activities orderStore))"
    by blast+
  from t p(1) have p1: "sorted_wrt
          (\<lambda>a b. (case createdAt b of None \<Rightarrow> 0 | Some t \<Rightarrow> t)
                   \<le> (case createdAt a of None \<Rightarrow> 0 | Some t \<Rightarrow> t))
          (documents p)"
    and p2: "totalCount p = length (documents p)"
    by blast+
  from t a(1) have a1: "sorted_wrt (\<lambda>x y. sem x \<le> sem y) (records a)"
    and a2: "snap_count a = length (filter (\<lambda>r. sid r = ''s1'') (coll_GPA orderStore))"
    by blast+
  from k c p a k1 c1 p1 a1 k2 [symmetric] c2 [symmetric] p2 [symmetric] a2 [symmetric]
  show ?thesis
    by (intro exI [of _ k] exI [of _ c] exI [of _ p] exI [of _ a]) simp
qed

text \<open>
  C5 as stated fails for the academics snapshot: with the two semester records of the example
  store, uploaded in the order of the semesters, the older record comes first.
\<close>

theorem academics_oldest_first:
  "(case fetchStudentAcademics None (Some exampleStore) ''s1'' of
      Some a \<Rightarrow> map oid (records a) = [''g1'', ''g2'']
        \<and> map createdAt (records a) = [Some 100, Some 200]
        \<and> \<not> sorted_wrt
              (\<lambda>x y. (case createdAt y of None \<Rightarrow> 0 | Some t \<Rightarrow> t)
                       \<le> (case createdAt x of None \<Rightarrow> 0 | Some t \<Rightarrow> t))
              (records a)
    | None \<Rightarrow> False)"
  by (simp add: fetchStudentAcademics_def example_defs withFullUrl_def)

text \<open>
  C2. The admin snapshot is claimed to hold the pending submissions of all five variants.
  The example store holds a pending extracurricular submission; the snapshot computed from
  it lists the internship and the skill only, and its breakdown has no count for
  extracurricular activities.
\<close>

theorem pending_snapshot_without_extracurricular:
  "exampleExtra \<in> set (coll_Extracurriculam exampleStore) \<and> isPending exampleExtra
   \<and> fetchPendingDocuments None (Some exampleStore) = Some examplePending
   \<and> map oid (documents examplePending) = [''i1'', ''k1'']
   \<and> breakdown examplePending = \<lparr>curriculam = 0, internships = 1, placements = 0, skills = 1\<rparr>"
  by (simp add: fetchPending_example)
    (simp add: examplePending_def example_defs isPending_def submission.defs)


section \<open>Properties of the subscriber sessions\<close>

lemma fetch_Some: "\<exists>snapshot. fetch PORT (Some st) k = Some snapshot"
  by (cases k)
    (simp_all add: fetchPendingDocuments_def fetchStudentAcademics_def fetchStudentSkills_def
      fetchStudentCurricular_def Let_def)

lemma fetch_None [simp]: "fetch PORT None k = None"
  by (cases k)
    (simp_all add: fetchPendingDocuments_def fetchStudentAcademics_def fetchStudentSkills_def
      fetchStudentCurricular_def)

lemma written_step: "\<exists>rest. written (step PORT k s ev) = written s @ rest"
  by (cases ev) (auto split: option.splits)

lemma written_run: "\<exists>rest. written (run PORT k s evs) = written s @ rest"
  unfolding run_def
proof (induction evs arbitrary: s)
  case Nil
  show ?case by simp
next
  case (Cons ev evs)
  obtain r1 where r1: "written (step PORT k s ev) = written s @ r1"
    using written_step by blast
  obtain r2 where "written (foldl (step PORT k) (step PORT k s ev) evs) = written (step PORT k s ev) @ r2"
    using Cons.IH by blast
  with r1 show ?case by simp
qed

lemma example_student_auth:
  "authenticateStudent exampleVerify (Some exampleStore) (studentRequest target)
     = Inr \<lparr>oid = ''u1'', sid = ''s1'', emailid = ''a@x.org''\<rparr>"
  by (simp add: authenticateStudent_def bearerToken_def truthy_def studentRequest_def
      exampleVerify_def findById_def exampleStore_def)

lemma authenticateAdmin_denies:
  assumes "bearerToken req = None \<or> (\<exists>token. bearerToken req = Some token \<and> verify token = None)"
  shows "\<exists>b. authenticateAdmin verify db req = Inl (Json 401 b)"
  using assms by (auto simp: authenticateAdmin_def)

lemma authenticateAdmin_needs_role:
  assumes "bearerToken req = Some token" and "verify token = Some decoded"
    and "role decoded \<noteq> Some ''admin''"
  shows "\<exists>b. authenticateAdmin verify db req = Inl (Json 403 b)"
  using assms by (simp add: authenticateAdmin_def)

text \<open>
  C1. Opening the admin pending-queue stream is claimed to need a valid admin credential.
  The route is registered without \<open>authenticateAdmin\<close>: a request with no credential
  at all, which the middleware would answer with 401, opens the stream and is sent the
  snapshot.
\<close>

theorem pending_stream_without_credential:
  "authenticateAdmin exampleVerify (Some exampleStore) anonymousRequest
     = Inl (Json 401 [(''error'', ''Access denied. No token provided.'')])
   \<and> pendingDocumentsStream None (Some exampleStore) anonymousRequest
     = Inr \<lparr>written = [Event ''pending-documents'' (PendingDocuments examplePending)],
            pollInterval = True, heartbeatInterval = True, ended = False\<rparr>"
  by (simp add: authenticateAdmin_def bearerToken_def truthy_def anonymousRequest_def
      pendingDocumentsStream_def openStream_def fetchPending_example)


lemma fetchSkills_example:
  "fetchStudentSkills None (Some exampleStore) ''s1'' = Some exampleSkills"
  by (simp add: fetchStudentSkills_def exampleSkills_def example_defs withFullUrl_def
      sortNewestFirst_def created_def fullUrl_def port_def)

lemma fetchPending_ok: "\<exists>p. fetchPendingDocuments PORT (Some st) = Some p"
  by (simp add: fetchPendingDocuments_def Let_def)

lemma fetchAcademics_ok: "\<exists>a. fetchStudentAcademics PORT (Some st) s = Some a"
  by (simp add: fetchStudentAcademics_def Let_def)

lemma fetchSkills_ok: "\<exists>k. fetchStudentSkills PORT (Some st) s = Some k"
  by (simp add: fetchStudentSkills_def Let_def)

lemma fetchCurricular_ok: "\<exists>c. fetchStudentCurricular PORT (Some st) s = Some c"
  by (simp add: fetchStudentCurricular_def Let_def)

lemma fetch_fails [simp]:
  "fetchPendingDocuments PORT None = None" "fetchStudentAcademics PORT None s = None"
  "fetchStudentSkills PORT None s = None" "fetchStudentCurricular PORT None s = None"
  by (simp_all add: fetchPendingDocuments_def fetchStudentAcademics_def fetchStudentSkills_def
      fetchStudentCurricular_def)

lemma openStream_timers:
  "pollInterval (openStream PORT db k)" "heartbeatInterval (openStream PORT db k)"
  "\<not> ended (openStream PORT db k)"
  by (simp_all add: openStream_def)

lemma openStream_pending:
  "case db of
     Some st \<Rightarrow> \<exists>p. fetchPendingDocuments PORT (Some st) = Some p
        \<and> written (openStream PORT db PendingStream)
            = [Event ''pending-documents'' (PendingDocuments p)]
   | None \<Rightarrow> written (openStream PORT db PendingStream)
        = [Event ''error'' (Failure ''Failed to fetch initial data'')]"
proof (cases db)
  case None
  then show ?thesis by (simp add: openStream_def)
next
  case (Some st)
  obtain p where "fetchPendingDocuments PORT (Some st) = Some p" using fetchPending_ok by blast
  with Some show ?thesis by (simp add: openStream_def)
qed

lemma openStream_academics:
  "case db of
     Some st \<Rightarrow> \<exists>a. fetchStudentAcademics PORT (Some st) s = Some a
        \<and> written (openStream PORT db (AcademicsStream s))
            = [Event ''academics-update'' (AcademicsUpdate a)]
   | None \<Rightarrow> written (openStream PORT db (AcademicsStream s))
        = [Event ''error'' (Failure ''Failed to fetch academic records'')]"
proof (cases db)
  case None
  then show ?thesis by (simp add: openStream_def)
next
  case (Some st)
  obtain a where "fetchStudentAcademics PORT (Some st) s = Some a"
    using fetchAcademics_ok by blast
  with Some show ?thesis by (simp add: openStream_def)
qed

lemma openStream_skills:
  "case db of
     Some st \<Rightarrow> \<exists>k. fetchStudentSkills PORT (Some st) s = Some k
        \<and> written (openStream PORT db (SkillsStream s))
            = [Event ''skills-update'' (DocumentsUpdate k)]
   | None \<Rightarrow> written (openStream PORT db (SkillsStream s))
        = [Event ''error'' (Failure ''Failed to fetch skills documents'')]"
proof (cases db)
  case None
  then show ?thesis by (simp add: openStream_def)
next
  case (Some st)
  obtain k where "fetchStudentSkills PORT (Some st) s = Some k" using fetchSkills_ok by blast
  with Some show ?thesis by (simp add: openStream_def)
qed

lemma openStream_curricular:
  "case db of
     Some st \<Rightarrow> \<exists>c. fetchStudentCurricular PORT (Some st) s = Some c
        \<and> written (openStream PORT db (CurricularStream s))
            = [Event ''curricular-update'' (DocumentsUpdate c)]
   | None \<Rightarrow> written (openStream PORT db (CurricularStream s))
        = [Event ''error'' (Failure ''Failed to fetch curricular documents'')]"
proof (cases db)
  case None
  then show ?thesis by (simp add: openStream_def)
next
  case (Some st)
  obtain c where "fetchStudentCurricular PORT (Some st) s = Some c"
    using fetchCurricular_ok by blast
  with Some show ?thesis by (simp add: openStream_def)
qed

text \<open>
  C6, as the code has it. Every route that opens a session writes exactly one frame before
  it creates its timers: the snapshot of its own scope under its own event name when the
  store answers the initial query, an error event when that query fails (for a student route
  that is after the middleware's query has succeeded). Both timers are then running, and
  whatever they write afterwards comes after that frame.
\<close>

theorem tick_zero:
  "(pendingDocumentsStream PORT db req = Inr s \<longrightarrow>
      (case db of
         Some st \<Rightarrow> \<exists>p. fetchPendingDocuments PORT (Some st) = Some p
            \<and> written s = [Event ''pending-documents'' (PendingDocuments p)]
       | None \<Rightarrow> written s = [Event ''error'' (Failure ''Failed to fetch initial data'')])
      \<and> pollInterval s \<and> heartbeatInterval s \<and> \<not> ended s
      \<and> (\<forall>evs. \<exists>rest. written (run PORT PendingStream s evs) = written s @ rest))
   \<and> (academicsStream verify PORT dbAuth db req = Inr s \<longrightarrow>
      (case db of
         Some st \<Rightarrow> \<exists>a. fetchStudentAcademics PORT (Some st) (params_sid req) = Some a
            \<and> written s = [Event ''academics-update'' (AcademicsUpdate a)]
       | None \<Rightarrow> written s = [Event ''error'' (Failure ''Failed to fetch academic records'')])
      \<and> pollInterval s \<and> heartbeatInterval s \<and> \<not> ended s
      \<and> (\<forall>evs. \<exists>rest.
            written (run PORT (AcademicsStream (params_sid req)) s evs) = written s @ rest))
   \<and> (skillsStream verify PORT dbAuth db req = Inr s \<longrightarrow>
      (\<exists>student. authenticateStudent verify dbAuth req = Inr student
         \<and> (case db of
               Some st \<Rightarrow> \<exists>k. fetchStudentSkills PORT (Some st) (sid student) = Some k
                  \<and> written s = [Event ''skills-update'' (DocumentsUpdate k)]
             | None \<Rightarrow> written s = [Event ''error'' (Failure ''Failed to fetch skills documents'')])
         \<and> pollInterval s \<and> heartbeatInterval s \<and> \<not> ended s
         \<and> (\<forall>evs. \<exists>rest.
               written (run PORT (SkillsStream (sid student)) s evs) = written s @ rest)))
   \<and> (curricularStream verify PORT dbAuth db req = Inr s \<longrightarrow>
      (\<exists>student. authenticateStudent verify dbAuth req = Inr student
         \<and> (case db of
               Some st \<Rightarrow> \<exists>c. fetchStudentCurricular PORT (Some st) (sid student) = Some c
                  \<and> written s = [Event ''curricular-update'' (DocumentsUpdate c)]
             | None \<Rightarrow>
                 written s = [Event ''error'' (Failure ''Failed to fetch curricular documents'')])
         \<and> pollInterval s \<and> heartbeatInterval s \<and> \<not> ended s
         \<and> (\<forall>evs. \<exists>rest.
               written (run PORT (CurricularStream (sid student)) s evs) = written s @ rest)))"
proof (intro conjI impI)
  assume "pendingDocumentsStream PORT db req = Inr s"
  then have s: "s = openStream PORT db PendingStream"
    by (simp add: pendingDocumentsStream_def)
  show "case db of
         Some st \<Rightarrow> \<exists>p. fetchPendingDocuments PORT (Some st) = Some p
            \<and> written s = [Event ''pending-documents'' (PendingDocuments p)]
       | None \<Rightarrow> written s = [Event ''error'' (Failure ''Failed to fetch initial data'')]"
    unfolding s by (rule openStream_pending)
  show "pollInterval s" "heartbeatInterval s" "\<not> ended s"
    unfolding s by (rule openStream_timers)+
  show "\<forall>evs. \<exists>rest. written (run PORT PendingStream s evs) = written s @ rest"
    using written_run by blast
next
  assume "academicsStream verify PORT dbAuth db req = Inr s"
  then have s: "s = openStream PORT db (AcademicsStream (params_sid req))"
    by (auto simp: academicsStream_def split: sum.splits if_splits)
  show "case db of
         Some st \<Rightarrow> \<exists>a. fetchStudentAcademics PORT (Some st) (params_sid req) = Some a
            \<and> written s = [Event ''academics-update'' (AcademicsUpdate a)]
       | None \<Rightarrow> written s = [Event ''error'' (Failure ''Failed to fetch academic records'')]"
    unfolding s by (rule openStream_academics)
  show "pollInterval s" "heartbeatInterval s" "\<not> ended s"
    unfolding s by (rule openStream_timers)+
  show "\<forall>evs. \<exists>rest.
      written (run PORT (AcademicsStream (params_sid req)) s evs) = written s @ rest"
    using written_run by blast
next
  assume "skillsStream verify PORT dbAuth db req = Inr s"
  then obtain student where a: "authenticateStudent verify dbAuth req = Inr student"
    and s: "s = openStream PORT db (SkillsStream (sid student))"
    by (auto simp: skillsStream_def split: sum.splits)
  have "case db of
         Some st \<Rightarrow> \<exists>k. fetchStudentSkills PORT (Some st) (sid student) = Some k
            \<and> written s = [Event ''skills-update'' (DocumentsUpdate k)]
       | None \<Rightarrow> written s = [Event ''error'' (Failure ''Failed to fetch skills documents'')]"
    unfolding s by (rule openStream_skills)
  moreover have "pollInterval s" "heartbeatInterval s" "\<not> ended s"
    unfolding s by (rule openStream_timers)+
  moreover have "\<forall>evs. \<exists>rest.
      written (run PORT (SkillsStream (sid student)) s evs) = written s @ rest"
    using written_run by blast
  ultimately show "\<exists>student. authenticateStudent verify dbAuth req = Inr student
         \<and> (case db of
               Some st \<Rightarrow> \<exists>k. fetchStudentSkills PORT (Some st) (sid student) = Some k
                  \<and> written s = [Event ''skills-update'' (DocumentsUpdate k)]
             | None \<Rightarrow> written s = [Event ''error'' (Failure ''Failed to fetch skills documents'')])
         \<and> pollInterval s \<and> heartbeatInterval s \<and> \<not> ended s
         \<and> (\<forall>evs. \<exists>rest.
               written (run PORT (SkillsStream (sid student)) s evs) = written s @ rest)"
    using a by (intro exI [of _ student]) simp
next
  assume "curricularStream verify PORT dbAuth db req = Inr s"
  then obtain student where a: "authenticateStudent verify dbAuth req = Inr student"
    and s: "s = openStream PORT db (CurricularStream (sid student))"
    by (auto simp: curricularStream_def split: sum.splits)
  have "case db of
         Some st \<Rightarrow> \<exists>c. fetchStudentCurricular PORT (Some st) (sid student) = Some c
            \<and> written s = [Event ''curricular-update'' (DocumentsUpdate c)]
       | None \<Rightarrow>
           written s = [Event ''error'' (Failure ''Failed to fetch curricular documents'')]"
    unfolding s by (rule openStream_curricular)
  moreover have "pollInterval s" "heartbeatInterval s" "\<not> ended s"
    unfolding s by (rule openStream_timers)+
  moreover have "\<forall>evs. \<exists>rest.
      written (run PORT (CurricularStream (sid student)) s evs) = written s @ rest"
    using written_run by blast
  ultimately show "\<exists>student. authenticateStudent verify dbAuth req = Inr student
         \<and> (case db of
               Some st \<Rightarrow> \<exists>c. fetchStudentCurricular PORT (Some st) (sid student) = Some c
                  \<and> written s = [Event ''curricular-update'' (DocumentsUpdate c)]
             | None \<Rightarrow>
                 written s = [Event ''error'' (Failure ''Failed to fetch curricular documents'')])
         \<and> pollInterval s \<and> heartbeatInterval s \<and> \<not> ended s
         \<and> (\<forall>evs. \<exists>rest.
               written (run PORT (CurricularStream (sid student)) s evs) = written s @ rest)"
    using a by (intro exI [of _ student]) simp
qed

theorem tick_zero_witness:
  "skillsStream exampleVerify None (Some exampleStore) None (studentRequest [])
     = Inr \<lparr>written = [Event ''error'' (Failure ''Failed to fetch skills documents'')],
            pollInterval = True, heartbeatInterval = True, ended = False\<rparr>
   \<and> skillsStream exampleVerify None (Some exampleStore) (Some exampleStore) (studentRequest [])
     = Inr \<lparr>written = [Event ''skills-update'' (DocumentsUpdate exampleSkills)],
            pollInterval = True, heartbeatInterval = True, ended = False\<rparr>
   \<and> pendingDocumentsStream None (Some exampleStore) anonymousRequest
     = Inr \<lparr>written = [Event ''pending-documents'' (PendingDocuments examplePending)],
            pollInterval = True, heartbeatInterval = True, ended = False\<rparr>
   \<and> (\<forall>evs. \<exists>rest.
         written (run None (SkillsStream ''s1'')
           \<lparr>written = [Event ''error'' (Failure ''Failed to fetch skills documents'')],
            pollInterval = True, heartbeatInterval = True, ended = False\<rparr> evs)
         = Event ''error'' (Failure ''Failed to fetch skills documents'') # rest)
   \<and> (\<forall>evs. \<exists>rest.
         written (run None (SkillsStream ''s1'')
           \<lparr>written = [Event ''skills-update'' (DocumentsUpdate exampleSkills)],
            pollInterval = True, heartbeatInterval = True, ended = False\<rparr> evs)
         = Event ''skills-update'' (DocumentsUpdate exampleSkills) # rest)
   \<and> (\<forall>evs. \<exists>rest.
         written (run None PendingStream
           \<lparr>written = [Event ''pending-documents'' (PendingDocuments examplePending)],
            pollInterval = True, heartbeatInterval = True, ended = False\<rparr> evs)
         = Event ''pending-documents'' (PendingDocuments examplePending) # rest)
   \<and> written (run None (SkillsStream ''s1'')
         \<lparr>written = [Event ''skills-update'' (DocumentsUpdate exampleSkills)],
          pollInterval = True, heartbeatInterval = True, ended = False\<rparr>
         [HeartbeatTick, PollTick None, PollTick (Some exampleStore)])
       = [Event ''skills-update'' (DocumentsUpdate exampleSkills), Heartbeat,
          Event ''skills-update'' (DocumentsUpdate exampleSkills)]"
proof -
  note auth = example_student_auth [of "[]"]
  have failed: "skillsStream exampleVerify None (Some exampleStore) None (studentRequest [])
     = Inr \<lparr>written = [Event ''error'' (Failure ''Failed to fetch skills documents'')],
            pollInterval = True, heartbeatInterval = True, ended = False\<rparr>"
    by (simp add: skillsStream_def auth openStream_def)
  have opened: "skillsStream exampleVerify None (Some exampleStore) (Some exampleStore)
       (studentRequest [])
     = Inr \<lparr>written = [Event ''skills-update'' (DocumentsUpdate exampleSkills)],
            pollInterval = True, heartbeatInterval = True, ended = False\<rparr>"
    by (simp add: skillsStream_def auth openStream_def fetchSkills_example)
  have pending: "pendingDocumentsStream None (Some exampleStore) anonymousRequest
     = Inr \<lparr>written = [Event ''pending-documents'' (PendingDocuments examplePending)],
            pollInterval = True, heartbeatInterval = True, ended = False\<rparr>"
    by (simp add: pendingDocumentsStream_def openStream_def fetchPending_example)
  have sid: "\<And>student.
      authenticateStudent exampleVerify (Some exampleStore) (studentRequest []) = Inr student
        \<Longrightarrow> sid student = ''s1''"
    by (simp add: auth)
  have r1: "\<forall>evs. \<exists>rest.
         written (run None (SkillsStream ''s1'')
           \<lparr>written = [Event ''error'' (Failure ''Failed to fetch skills documents'')],
            pollInterval = True, heartbeatInterval = True, ended = False\<rparr> evs)
         = Event ''error'' (Failure ''Failed to fetch skills documents'') # rest"
  proof -
    note t = tick_zero [where PORT = None and db = None and dbAuth = "Some exampleStore"
        and verify = exampleVerify and req = "studentRequest []"
        and s = "\<lparr>written = [Event ''error'' (Failure ''Failed to fetch skills documents'')],
            pollInterval = True, heartbeatInterval = True, ended = False\<rparr>"]
    from t [THEN conjunct2, THEN conjunct2, THEN conjunct1, THEN mp, OF failed]
    obtain student
      where "authenticateStudent exampleVerify (Some exampleStore) (studentRequest []) = Inr student"
        and "\<forall>evs. \<exists>rest.
          written (run None (SkillsStream (sid student))
            \<lparr>written = [Event ''error'' (Failure ''Failed to fetch skills documents'')],
             pollInterval = True, heartbeatInterval = True, ended = False\<rparr> evs)
          = written \<lparr>written = [Event ''error'' (Failure ''Failed to fetch skills documents'')],
             pollInterval = True, heartbeatInterval = True, ended = False\<rparr> @ rest"
      by (elim exE conjE) (rule that, assumption+)
    then show ?thesis by (simp add: sid)
  qed
  have r2: "\<forall>evs. \<exists>rest.
         written (run None (SkillsStream ''s1'')
           \<lparr>written = [Event ''skills-update'' (DocumentsUpdate exampleSkills)],
            pollInterval = True, heartbeatInterval = True, ended = False\<rparr> evs)
         = Event ''skills-update'' (DocumentsUpdate exampleSkills) # rest"
  proof -
    note t = tick_zero [where PORT = None and db = "Some exampleStore"
        and dbAuth = "Some exampleStore" and verify = exampleVerify and req = "studentRequest []"
        and s = "\<lparr>written = [Event ''skills-update'' (DocumentsUpdate exampleSkills)],
            pollInterval = True, heartbeatInterval = True, ended = False\<rparr>"]
    from t [THEN conjunct2, THEN conjunct2, THEN conjunct1, THEN mp, OF opened]
    obtain student
      where "authenticateStudent exampleVerify (Some exampleStore) (studentRequest []) = Inr student"
        and "\<forall>evs. \<exists>rest.
          written (run None (SkillsStream (sid student))
            \<lparr>written = [Event ''skills-update'' (DocumentsUpdate exampleSkills)],
             pollInterval = True, heartbeatInterval = True, ended = False\<rparr> evs)
          = written \<lparr>written = [Event ''skills-update'' (DocumentsUpdate exampleSkills)],
             pollInterval = True, heartbeatInterval = True, ended = False\<rparr> @ rest"
      by (elim exE conjE) (rule that, assumption+)
    then show ?thesis by (simp add: sid)
  qed
  have r3: "\<forall>evs. \<exists>rest.
         written (run None PendingStream
           \<lparr>written = [Event ''pending-documents'' (PendingDocuments examplePending)],
            pollInterval = True, heartbeatInterval = True, ended = False\<rparr> evs)
         = Event ''pending-documents'' (PendingDocuments examplePending) # rest"
  proof -
    note t = tick_zero [where PORT = None and db = "Some exampleStore"
        and req = anonymousRequest
        and s = "\<lparr>written = [Event ''pending-documents'' (PendingDocuments examplePending)],
            pollInterval = True, heartbeatInterval = True, ended = False\<rparr>"]
    from t [THEN conjunct1, THEN mp, OF pending]
    have "\<forall>evs. \<exists>rest.
         written (run None PendingStream
           \<lparr>written = [Event ''pending-documents'' (PendingDocuments examplePending)],
            pollInterval = True, heartbeatInterval = True, ended = False\<rparr> evs)
         = written \<lparr>written = [Event ''pending-documents'' (PendingDocuments examplePending)],
            pollInterval = True, heartbeatInterval = True, ended = False\<rparr> @ rest"
      by (elim conjE)
    then show ?thesis by simp
  qed
  have r4: "written (run None (SkillsStream ''s1'')
         \<lparr>written = [Event ''skills-update'' (DocumentsUpdate exampleSkills)],
          pollInterval = True, heartbeatInterval = True, ended = False\<rparr>
         [HeartbeatTick, PollTick None, PollTick (Some exampleStore)])
       = [Event ''skills-update'' (DocumentsUpdate exampleSkills), Heartbeat,
          Event ''skills-update'' (DocumentsUpdate exampleSkills)]"
    by (simp add: run_def fetchSkills_example)
  show ?thesis
    by (intro conjI) (rule failed opened pending r1 r2 r3 r4)+
qed

text \<open>
  C6 as stated fails when the initial query fails: the session is opened, its timers run,
  and the one frame written at the open is an error event, not a snapshot.
\<close>

theorem open_without_snapshot:
  "pendingDocumentsStream None None anonymousRequest
     = Inr \<lparr>written = [Event ''error'' (Failure ''Failed to fetch initial data'')],
            pollInterval = True, heartbeatInterval = True, ended = False\<rparr>"
  by (simp add: pendingDocumentsStream_def openStream_def fetchPendingDocuments_def)

text \<open>
  C7. A poll tick of an open session whose store query fails: the helper of every scope
  hands its error to the session (it returns no payload), and the session takes it for that
  tick only. The session is exactly as before, so it is not ended and both timers stay, and
  the next poll tick fires; with an answering store that tick writes the snapshot of its
  scope.
\<close>

theorem failed_poll_tick:
  "fetchPendingDocuments PORT None = None
   \<and> fetchStudentAcademics PORT None x = None
   \<and> fetchStudentSkills PORT None x = None
   \<and> fetchStudentCurricular PORT None x = None
   \<and> step PORT k s (PollTick None) = s
   \<and> (pollInterval s \<longrightarrow>
        (\<exists>p. fetchPendingDocuments PORT (Some st) = Some p
           \<and> written (step PORT PendingStream (step PORT PendingStream s (PollTick None))
                 (PollTick (Some st)))
              = written s @ [Event ''pending-documents'' (PendingDocuments p)])
        \<and> (\<exists>a. fetchStudentAcademics PORT (Some st) x = Some a
           \<and> written (step PORT (AcademicsStream x) (step PORT (AcademicsStream x) s (PollTick None))
                 (PollTick (Some st)))
              = written s @ [Event ''academics-update'' (AcademicsUpdate a)])
        \<and> (\<exists>k. fetchStudentSkills PORT (Some st) x = Some k
           \<and> written (step PORT (SkillsStream x) (step PORT (SkillsStream x) s (PollTick None))
                 (PollTick (Some st)))
              = written s @ [Event ''skills-update'' (DocumentsUpdate k)])
        \<and> (\<exists>c. fetchStudentCurricular PORT (Some st) x = Some c
           \<and> written (step PORT (CurricularStream x) (step PORT (CurricularStream x) s (PollTick None))
                 (PollTick (Some st)))
              = written s @ [Event ''curricular-update'' (DocumentsUpdate c)]))"
proof -
  have same: "\<And>k. step PORT k s (PollTick None) = s"
  proof -
    fix k show "step PORT k s (PollTick None) = s" by (cases k) simp_all
  qed
  obtain p where p: "fetchPendingDocuments PORT (Some st) = Some p"
    using fetchPending_ok by blast
  obtain a where a: "fetchStudentAcademics PORT (Some st) x = Some a"
    using fetchAcademics_ok by blast
  obtain k' where k: "fetchStudentSkills PORT (Some st) x = Some k'"
    using fetchSkills_ok by blast
  obtain c where c: "fetchStudentCurricular PORT (Some st) x = Some c"
    using fetchCurricular_ok by blast
  show ?thesis
    by (simp add: same p a k c)
qed

theorem failed_poll_tick_witness:
  "fetchStudentSkills None None ''s1'' = None
   \<and> step None (SkillsStream ''s1'')
        \<lparr>written = [Event ''skills-update'' (DocumentsUpdate exampleSkills)],
         pollInterval = True, heartbeatInterval = True, ended = False\<rparr> (PollTick None)
      = \<lparr>written = [Event ''skills-update'' (DocumentsUpdate exampleSkills)],
         pollInterval = True, heartbeatInterval = True, ended = False\<rparr>
   \<and> (\<exists>k. fetchStudentSkills None (Some orderStore) ''s1'' = Some k
         \<and> map oid (documents k) = [''k1'', ''k0'', ''k2'']
         \<and> written (step None (SkillsStream ''s1'')
              (step None (SkillsStream ''s1'')
                 \<lparr>written = [Event ''skills-update'' (DocumentsUpdate exampleSkills)],
                  pollInterval = True, heartbeatInterval = True, ended = False\<rparr> (PollTick None))
              (PollTick (Some orderStore)))
            = [Event ''skills-update'' (DocumentsUpdate exampleSkills),
               Event ''skills-update'' (DocumentsUpdate k)])"
proof -
  obtain k where k: "fetchStudentSkills None (Some orderStore) ''s1'' = Some k"
      "map oid (documents k) = [''k1'', ''k0'', ''k2'']"
    using order_skills by auto
  note t = failed_poll_tick [of None "''s1''" "SkillsStream ''s1''"
      "\<lparr>written = [Event ''skills-update'' (DocumentsUpdate exampleSkills)],
        pollInterval = True, heartbeatInterval = True, ended = False\<rparr>" orderStore]
  note 1 = t [THEN conjunct2, THEN conjunct2, THEN conjunct1]
  note 2 = t [THEN conjunct2, THEN conjunct2, THEN conjunct2, THEN conjunct2, THEN conjunct1]
  have 3: "written (step None (SkillsStream ''s1'')
              (step None (SkillsStream ''s1'')
                 \<lparr>written = [Event ''skills-update'' (DocumentsUpdate exampleSkills)],
                  pollInterval = True, heartbeatInterval = True, ended = False\<rparr> (PollTick None))
              (PollTick (Some orderStore)))
            = [Event ''skills-update'' (DocumentsUpdate exampleSkills),
               Event ''skills-update'' (DocumentsUpdate k)]"
    unfolding 2 by (simp add: k(1))
  show ?thesis
    by (intro conjI exI [of _ k]) (rule 1 2 3 k)+
qed

text \<open>
  C8. A request to the academics stream that is authenticated as one student and names the
  identifier of another in its path is answered with 403; no session is opened, so nothing
  is written.
\<close>

theorem academics_stream_forbidden:
  assumes "authenticateStudent verify dbAuth req = Inr a" and "params_sid req \<noteq> sid a"
  shows "academicsStream verify PORT dbAuth db req
    = Inl (Json 403 [(''error'', ''Access denied. Can only view your own academic records.'')])"
  using assms by (simp add: academicsStream_def)

theorem academics_stream_forbidden_witness:
  "authenticateStudent exampleVerify (Some exampleStore) (studentRequest ''s2'')
     = Inr \<lparr>oid = ''u1'', sid = ''s1'', emailid = ''a@x.org''\<rparr>
   \<and> params_sid (studentRequest ''s2'') = ''s2''
   \<and> academicsStream exampleVerify None (Some exampleStore) (Some exampleStore)
        (studentRequest ''s2'')
     = Inl (Json 403 [(''error'', ''Access denied. Can only view your own academic records.'')])"
proof -
  have "params_sid (studentRequest ''s2'') \<noteq> sid \<lparr>oid = ''u1'', sid = ''s1'', emailid = ''a@x.org''\<rparr>"
    by (simp add: studentRequest_def)
  from academics_stream_forbidden [OF example_student_auth this]
  show ?thesis by (simp add: example_student_auth) (simp add: studentRequest_def)
qed

section \<open>Properties of the review actions\<close>

lemma findOneAndUpdate_miss:
  "\<forall>x\<in>set xs. \<not> P x \<Longrightarrow> findOneAndUpdate P f xs = (xs, None)"
  by (induction xs) auto

lemma findOneAndUpdate_hit:
  "\<exists>x\<in>set xs. P x \<Longrightarrow>
   \<exists>i<length xs. P (xs ! i) \<and> (\<forall>j<i. \<not> P (xs ! j))
      \<and> findOneAndUpdate P f xs = (xs[i := f (xs ! i)], Some (f (xs ! i)))"
proof (induction xs)
  case Nil
  then show ?case by simp
next
  case (Cons x xs)
  show ?case
  proof (cases "P x")
    case True
    then have "P ((x # xs) ! 0) \<and> (\<forall>j<0. \<not> P ((x # xs) ! j))
      \<and> findOneAndUpdate P f (x # xs) = ((x # xs)[0 := f ((x # xs) ! 0)], Some (f ((x # xs) ! 0)))"
      by simp
    then show ?thesis by (intro exI [of _ 0]) simp
  next
    case False
    with Cons.prems have "\<exists>y\<in>set xs. P y" by auto
    then obtain i where i: "i < length xs" "P (xs ! i)" "\<forall>j<i. \<not> P (xs ! j)"
      "findOneAndUpdate P f xs = (xs[i := f (xs ! i)], Some (f (xs ! i)))"
      using Cons.IH by blast
    have "\<forall>j<Suc i. \<not> P ((x # xs) ! j)"
    proof (intro allI impI)
      fix j assume "j < Suc i"
      then show "\<not> P ((x # xs) ! j)" using False i(3) by (cases j) auto
    qed
    with i False have "Suc i < length (x # xs) \<and> P ((x # xs) ! Suc i)
      \<and> (\<forall>j<Suc i. \<not> P ((x # xs) ! j))
      \<and> findOneAndUpdate P f (x # xs)
          = ((x # xs)[Suc i := f ((x # xs) ! Suc i)], Some (f ((x # xs) ! Suc i)))"
      by simp
    then show ?thesis by blast
  qed
qed

lemma matches_iff: "matches s f u d \<longleftrightarrow> sid d = s \<and> f = ''url'' \<and> url d = Some u"
  by (simp add: matches_def path_def)

lemma update_collection:
  assumes "(m, get :: store \<Rightarrow> submission list, put :: submission list \<Rightarrow> store \<Rightarrow> store) \<in> set
     [(Activities, coll_Activities, \<lambda>ds st. st\<lparr>coll_Activities := ds\<rparr>),
      (Extracurriculam, coll_Extracurriculam, \<lambda>ds st. st\<lparr>coll_Extracurriculam := ds\<rparr>),
      (Interned, coll_Interned, \<lambda>ds st. st\<lparr>coll_Interned := ds\<rparr>),
      (Company, coll_Company, \<lambda>ds st. st\<lparr>coll_Company := ds\<rparr>),
      (Skill, coll_Skill, \<lambda>ds st. st\<lparr>coll_Skill := ds\<rparr>)]"
  shows "modelFindOneAndUpdate m s f u c st =
     (case findOneAndUpdate (matches s f u) (applyChange c) (get st) of
        (ds, updated) \<Rightarrow> (put ds st, updated \<noteq> None))"
    and "put (get st) st = st"
  using assms by (auto simp: modelFindOneAndUpdate_def)

lemma update_miss:
  assumes "(m, get :: store \<Rightarrow> submission list, put :: submission list \<Rightarrow> store \<Rightarrow> store) \<in> set
     [(Activities, coll_Activities, \<lambda>ds st. st\<lparr>coll_Activities := ds\<rparr>),
      (Extracurriculam, coll_Extracurriculam, \<lambda>ds st. st\<lparr>coll_Extracurriculam := ds\<rparr>),
      (Interned, coll_Interned, \<lambda>ds st. st\<lparr>coll_Interned := ds\<rparr>),
      (Company, coll_Company, \<lambda>ds st. st\<lparr>coll_Company := ds\<rparr>),
      (Skill, coll_Skill, \<lambda>ds st. st\<lparr>coll_Skill := ds\<rparr>)]"
    and "\<not> (f = ''url'' \<and> (\<exists>d\<in>set (get st). sid d = s \<and> url d = Some u))"
  shows "modelFindOneAndUpdate m s f u c st = (st, False)"
proof -
  have "\<forall>d\<in>set (get st). \<not> matches s f u d"
    using assms(2) by (auto simp: matches_iff)
  then have "findOneAndUpdate (matches s f u) (applyChange c) (get st) = (get st, None)"
    by (rule findOneAndUpdate_miss)
  then show ?thesis by (simp add: update_collection [OF assms(1)])
qed

lemma update_hit:
  assumes "(m, get :: store \<Rightarrow> submission list, put :: submission list \<Rightarrow> store \<Rightarrow> store) \<in> set
     [(Activities, coll_Activities, \<lambda>ds st. st\<lparr>coll_Activities := ds\<rparr>),
      (Extracurriculam, coll_Extracurriculam, \<lambda>ds st. st\<lparr>coll_Extracurriculam := ds\<rparr>),
      (Interned, coll_Interned, \<lambda>ds st. st\<lparr>coll_Interned := ds\<rparr>),
      (Company, coll_Company, \<lambda>ds st. st\<lparr>coll_Company := ds\<rparr>),
      (Skill, coll_Skill, \<lambda>ds st. st\<lparr>coll_Skill := ds\<rparr>)]"
    and "f = ''url'' \<and> (\<exists>d\<in>set (get st). sid d = s \<and> url d = Some u)"
  shows "\<exists>i<length (get st).
           sid (get st ! i) = s \<and> url (get st ! i) = Some u
           \<and> (\<forall>j<i. \<not> (sid (get st ! j) = s \<and> url (get st ! j) = Some u))
           \<and> modelFindOneAndUpdate m s f u c st
               = (put ((get st)[i := applyChange c (get st ! i)]) st, True)"
proof -
  have "\<exists>d\<in>set (get st). matches s f u d"
    using assms(2) by (auto simp: matches_iff)
  then obtain i where i: "i < length (get st)" "matches s f u (get st ! i)"
      "\<forall>j<i. \<not> matches s f u (get st ! j)"
      "findOneAndUpdate (matches s f u) (applyChange c) (get st)
        = ((get st)[i := applyChange c (get st ! i)], Some (applyChange c (get st ! i)))"
    using findOneAndUpdate_hit [of "get st" "matches s f u" "applyChange c"] by blast
  have "modelFindOneAndUpdate m s f u c st
      = (put ((get st)[i := applyChange c (get st ! i)]) st, True)"
    by (simp add: update_collection [OF assms(1)] i(4))
  moreover have "sid (get st ! i) = s \<and> url (get st ! i) = Some u"
    using i(2) by (simp add: matches_iff)
  moreover have "\<forall>j<i. \<not> (sid (get st ! j) = s \<and> url (get st ! j) = Some u)"
    using i(3) assms(2) by (simp add: matches_iff)
  ultimately show ?thesis using i(1) by blast
qed

lemma acceptTarget_Inr:
  assumes "acceptTarget p b = Inr (m, f, s, u)"
  shows "b ''sid'' = Some s
    \<and> (\<exists>raw. raw \<noteq> []
          \<and> (b ''docurl'' = Some raw
              \<or> b ''docurl'' = None \<and> b ''docUrl'' = Some raw
              \<or> b ''docurl'' = None \<and> b ''docUrl'' = None \<and> b ''url'' = Some raw)
          \<and> u = leadingSlash (normalizeDocUrl p raw))"
proof -
  obtain rawUrl rawType where
    raw: "coalesce (coalesce (b ''docurl'') (b ''docUrl'')) (b ''url'') = Some rawUrl"
    and sid: "b ''sid'' = Some s" and ne: "rawUrl \<noteq> []"
    and u: "u = leadingSlash (normalizeDocUrl p rawUrl)"
    using assms
    by (auto simp: acceptTarget_def Let_def split: option.splits if_splits resolved.splits)
  from raw have "b ''docurl'' = Some rawUrl
              \<or> b ''docurl'' = None \<and> b ''docUrl'' = Some rawUrl
              \<or> b ''docurl'' = None \<and> b ''docUrl'' = None \<and> b ''url'' = Some rawUrl"
    by (auto simp: coalesce_def split: option.splits)
  with sid ne u show ?thesis by blast
qed

lemma rejectTarget_Inr:
  assumes "rejectTarget p b = Inr (m, f, s, u, descr)"
  shows "b ''sid'' = Some s \<and> b ''description'' = Some descr \<and> descr \<noteq> []
    \<and> (\<exists>raw. raw \<noteq> []
          \<and> (b ''docurl'' = Some raw
              \<or> b ''docurl'' = None \<and> b ''docUrl'' = Some raw
              \<or> b ''docurl'' = None \<and> b ''docUrl'' = None \<and> b ''url'' = Some raw)
          \<and> u = leadingSlash (normalizeDocUrl p raw))"
proof -
  obtain rawUrl rawType where
    raw: "coalesce (coalesce (b ''docurl'') (b ''docUrl'')) (b ''url'') = Some rawUrl"
    and sid: "b ''sid'' = Some s" and ne: "rawUrl \<noteq> []"
    and d: "b ''description'' = Some descr" "descr \<noteq> []"
    and u: "u = leadingSlash (normalizeDocUrl p rawUrl)"
    using assms
    by (auto simp: rejectTarget_def Let_def split: option.splits if_splits resolved.splits)
  from raw have "b ''docurl'' = Some rawUrl
              \<or> b ''docurl'' = None \<and> b ''docUrl'' = Some rawUrl
              \<or> b ''docurl'' = None \<and> b ''docUrl'' = None \<and> b ''url'' = Some rawUrl"
    by (auto simp: coalesce_def split: option.splits)
  with sid ne d u show ?thesis by blast
qed

lemma reject_without_description:
  assumes "body req ''description'' = None \<or> body req ''description'' = Some []"
  shows "rejectTarget p (body req)
      = Inl (Json 400
          [(''error'', ''Missing required fields: sid, url (or docurl), documentType, description'')])"
  using assms by (auto simp: rejectTarget_def Let_def split: option.splits)

lemma reject_without_description_unchanged:
  assumes "body req ''description'' = None \<or> body req ''description'' = Some []"
  shows "snd (rejectDocument p db req) = db"
  by (simp add: rejectDocument_def reject_without_description [OF assms] split: sum.splits)


lemma findOneAndUpdate_None: "findOneAndUpdate P f xs = (ys, None) \<Longrightarrow> ys = xs"
  by (induction xs arbitrary: ys) (auto split: if_splits prod.splits)

lemma modelFindOneAndUpdate_not_updated:
  "modelFindOneAndUpdate m s f u c st = (st', False) \<Longrightarrow> st' = st"
  by (cases m)
    (auto simp: modelFindOneAndUpdate_def split: prod.splits dest!: findOneAndUpdate_None)

lemma accept_changes_only_on_success:
  "acceptDocument p db req = (Json code b, db') \<Longrightarrow> code \<noteq> 200 \<Longrightarrow> db' = db"
  by (auto simp: acceptDocument_def split: sum.splits option.splits prod.splits if_splits
      dest: modelFindOneAndUpdate_not_updated)

lemma reject_changes_only_on_success:
  "rejectDocument p db req = (Json code b, db') \<Longrightarrow> code \<noteq> 200 \<Longrightarrow> db' = db"
  by (auto simp: rejectDocument_def split: sum.splits option.splits prod.splits if_splits
      dest: modelFindOneAndUpdate_not_updated)

lemma example_admin_auth:
  "authenticateAdmin (jwtVerify examplePlatform) (Some exampleStore) (reviewRequest text)
     = Inr \<lparr>oid = ''f1'', facultyid = ''F-1''\<rparr>"
  by (simp add: authenticateAdmin_def bearerToken_def truthy_def reviewRequest_def adminRequest_def
      examplePlatform_def exampleVerify_def findById_def exampleStore_def)

lemma example_interned [simp]: "coll_Interned exampleStore = [exampleIntern]"
  by (simp add: exampleStore_def)

lemma example_intern_matches: "matches ''s2'' ''url'' ''/uploads/offer.pdf'' exampleIntern"
  by (simp add: matches_def path_def exampleIntern_def)

lemma review_admin_auth:
  "authenticateAdmin (jwtVerify examplePlatform) (Some reviewStore) (adminRequest entries)
     = Inr \<lparr>oid = ''f1'', facultyid = ''F-1''\<rparr>"
  by (simp add: authenticateAdmin_def bearerToken_def truthy_def adminRequest_def
      examplePlatform_def exampleVerify_def findById_def reviewStore_def exampleStore_def)

lemma review_skills [simp]:
  "coll_Skill reviewStore = [exampleDecoySkill, exampleOldSkill, exampleSkill]"
  by (simp add: reviewStore_def)

lemma review_accept_target:
  "acceptTarget examplePlatform (body (skillReviewRequest ''certificate unreadable''))
     = Inr (Skill, ''url'', ''s1'', ''/uploads/python.pdf'')"
  by code_simp

lemma review_reject_target:
  "rejectTarget examplePlatform (body (skillReviewRequest ''certificate unreadable''))
     = Inr (Skill, ''url'', ''s1'', ''/uploads/python.pdf'', ''certificate unreadable'')"
  by code_simp

lemma review_missing_target:
  "acceptTarget examplePlatform
       (body (adminRequest [(''sid'', ''s3''), (''docurl'', ''uploads/python.pdf''),
                            (''type'', ''skills'')]))
     = Inr (Skill, ''url'', ''s3'', ''/uploads/python.pdf'')"
  by code_simp

lemma review_only_match:
  assumes "i < length [exampleDecoySkill, exampleOldSkill, exampleSkill]"
    and "sid ([exampleDecoySkill, exampleOldSkill, exampleSkill] ! i) = ''s1''"
    and "url ([exampleDecoySkill, exampleOldSkill, exampleSkill] ! i) = Some ''/uploads/python.pdf''"
  shows "i = 2"
proof -
  from assms(1) consider "i = 0" | "i = 1" | "i = 2" by fastforce
  then show ?thesis
    using assms(2,3)
    by cases (simp_all add: exampleDecoySkill_def exampleOldSkill_def)
qed

text \<open>
  C3. A review action of an authenticated admin whose request resolves to one of the five
  submission collections, with the owner \<open>s\<close> taken from the request's \<^verbatim>\<open>sid\<close> and
  the location \<open>u\<close> normalized from its \<^verbatim>\<open>docurl\<close>, \<^verbatim>\<open>docUrl\<close> or \<^verbatim>\<open>url\<close>.
  When a document of that collection has this owner and this location in its \<^verbatim>\<open>url\<close>,
  the first such document is the one document that changes (accept: status
  \<^verbatim>\<open>accepted\<close> and no description; reject: status \<^verbatim>\<open>rejected\<close> and the description
  of the request), every other document and every other collection stays, and the answer is
  200; when there is none, the answer is 404 and the store is as before.
\<close>

theorem review_action:
  assumes auth: "authenticateAdmin (jwtVerify p) (Some st) req = Inr faculty"
    and coll: "(m, get :: store \<Rightarrow> submission list, put :: submission list \<Rightarrow> store \<Rightarrow> store) \<in> set
     [(Activities, coll_Activities, \<lambda>ds st. st\<lparr>coll_Activities := ds\<rparr>),
      (Extracurriculam, coll_Extracurriculam, \<lambda>ds st. st\<lparr>coll_Extracurriculam := ds\<rparr>),
      (Interned, coll_Interned, \<lambda>ds st. st\<lparr>coll_Interned := ds\<rparr>),
      (Company, coll_Company, \<lambda>ds st. st\<lparr>coll_Company := ds\<rparr>),
      (Skill, coll_Skill, \<lambda>ds st. st\<lparr>coll_Skill := ds\<rparr>)]"
  shows
    "(acceptTarget p (body req) = Inr (m, f, s, u) \<longrightarrow>
        body req ''sid'' = Some s
        \<and> (\<exists>raw. raw \<noteq> []
              \<and> (body req ''docurl'' = Some raw
                  \<or> body req ''docurl'' = None \<and> body req ''docUrl'' = Some raw
                  \<or> body req ''docurl'' = None \<and> body req ''docUrl'' = None
                      \<and> body req ''url'' = Some raw)
              \<and> u = leadingSlash (normalizeDocUrl p raw))
        \<and> (if f = ''url'' \<and> (\<exists>d\<in>set (get st). sid d = s \<and> url d = Some u)
           then \<exists>i<length (get st).
                  sid (get st ! i) = s \<and> url (get st ! i) = Some u
                  \<and> (\<forall>j<i. \<not> (sid (get st ! j) = s \<and> url (get st ! j) = Some u))
                  \<and> acceptDocument p (Some st) req =
                      (Json 200 [(''message'', ''successfully accepted'')],
                       Some (put
                         ((get st)[i := (get st ! i)\<lparr>status := Some ''accepted'', description := None\<rparr>])
                         st))
           else acceptDocument p (Some st) req =
                  (Json 404 [(''error'', ''Document not found for given sid and docurl'')], Some st)))
     \<and> (rejectTarget p (body req) = Inr (m, f, s, u, descr)
          \<and> validators p m ''status'' ''rejected'' \<and> validators p m ''description'' descr \<longrightarrow>
        body req ''sid'' = Some s \<and> body req ''description'' = Some descr \<and> descr \<noteq> []
        \<and> (\<exists>raw. raw \<noteq> []
              \<and> (body req ''docurl'' = Some raw
                  \<or> body req ''docurl'' = None \<and> body req ''docUrl'' = Some raw
                  \<or> body req ''docurl'' = None \<and> body req ''docUrl'' = None
                      \<and> body req ''url'' = Some raw)
              \<and> u = leadingSlash (normalizeDocUrl p raw))
        \<and> (if f = ''url'' \<and> (\<exists>d\<in>set (get st). sid d = s \<and> url d = Some u)
           then \<exists>i<length (get st).
                  sid (get st ! i) = s \<and> url (get st ! i) = Some u
                  \<and> (\<forall>j<i. \<not> (sid (get st ! j) = s \<and> url (get st ! j) = Some u))
                  \<and> rejectDocument p (Some st) req =
                      (Json 200 [(''message'', ''successfully rejected''), (''description'', descr)],
                       Some (put
                         ((get st)[i := (get st ! i)\<lparr>status := Some ''rejected'', description := Some descr\<rparr>])
                         st))
           else rejectDocument p (Some st) req =
                  (Json 404 [(''error'', ''Document not found for given sid and url'')], Some st)))"
proof (intro conjI impI)
  assume tgt: "acceptTarget p (body req) = Inr (m, f, s, u)"
  note pin = acceptTarget_Inr [OF tgt]
  show "body req ''sid'' = Some s" by (rule pin [THEN conjunct1])
  show "\<exists>raw. raw \<noteq> []
              \<and> (body req ''docurl'' = Some raw
                  \<or> body req ''docurl'' = None \<and> body req ''docUrl'' = Some raw
                  \<or> body req ''docurl'' = None \<and> body req ''docUrl'' = None
                      \<and> body req ''url'' = Some raw)
              \<and> u = leadingSlash (normalizeDocUrl p raw)"
    by (rule pin [THEN conjunct2])
  show "if f = ''url'' \<and> (\<exists>d\<in>set (get st). sid d = s \<and> url d = Some u)
           then \<exists>i<length (get st).
                  sid (get st ! i) = s \<and> url (get st ! i) = Some u
                  \<and> (\<forall>j<i. \<not> (sid (get st ! j) = s \<and> url (get st ! j) = Some u))
                  \<and> acceptDocument p (Some st) req =
                      (Json 200 [(''message'', ''successfully accepted'')],
                       Some (put
                         ((get st)[i := (get st ! i)\<lparr>status := Some ''accepted'', description := None\<rparr>])
                         st))
           else acceptDocument p (Some st) req =
                  (Json 404 [(''error'', ''Document not found for given sid and docurl'')], Some st)"
  proof (cases "f = ''url'' \<and> (\<exists>d\<in>set (get st). sid d = s \<and> url d = Some u)")
    case True
    obtain i where i: "i < length (get st)"
      "sid (get st ! i) = s \<and> url (get st ! i) = Some u"
      "\<forall>j<i. \<not> (sid (get st ! j) = s \<and> url (get st ! j) = Some u)"
      "modelFindOneAndUpdate m s f u Accept st
         = (put ((get st)[i := applyChange Accept (get st ! i)]) st, True)"
      using update_hit [OF coll True, of Accept] by blast
    have "acceptDocument p (Some st) req =
        (Json 200 [(''message'', ''successfully accepted'')],
         Some (put
           ((get st)[i := (get st ! i)\<lparr>status := Some ''accepted'', description := None\<rparr>])
           st))"
      by (simp add: acceptDocument_def auth tgt i(4) applyChange_def)
    with i(1-3) have hit: "\<exists>i<length (get st).
                  sid (get st ! i) = s \<and> url (get st ! i) = Some u
                  \<and> (\<forall>j<i. \<not> (sid (get st ! j) = s \<and> url (get st ! j) = Some u))
                  \<and> acceptDocument p (Some st) req =
                      (Json 200 [(''message'', ''successfully accepted'')],
                       Some (put
                         ((get st)[i := (get st ! i)\<lparr>status := Some ''accepted'', description := None\<rparr>])
                         st))"
      by blast
    show ?thesis by (subst if_P [OF True]) (rule hit)
  next
    case False
    have miss: "acceptDocument p (Some st) req =
        (Json 404 [(''error'', ''Document not found for given sid and docurl'')], Some st)"
      by (simp add: acceptDocument_def auth tgt update_miss [OF coll False])
    show ?thesis by (subst if_not_P [OF False]) (rule miss)
  qed
next
  assume "rejectTarget p (body req) = Inr (m, f, s, u, descr)
          \<and> validators p m ''status'' ''rejected'' \<and> validators p m ''description'' descr"
  then have tgt: "rejectTarget p (body req) = Inr (m, f, s, u, descr)"
    and ok: "validators p m ''status'' ''rejected''" "validators p m ''description'' descr"
    by simp_all
  note pin = rejectTarget_Inr [OF tgt]
  show "body req ''sid'' = Some s" by (rule pin [THEN conjunct1])
  show "body req ''description'' = Some descr" by (rule pin [THEN conjunct2, THEN conjunct1])
  show "descr \<noteq> []" by (rule pin [THEN conjunct2, THEN conjunct2, THEN conjunct1])
  show "\<exists>raw. raw \<noteq> []
              \<and> (body req ''docurl'' = Some raw
                  \<or> body req ''docurl'' = None \<and> body req ''docUrl'' = Some raw
                  \<or> body req ''docurl'' = None \<and> body req ''docUrl'' = None
                      \<and> body req ''url'' = Some raw)
              \<and> u = leadingSlash (normalizeDocUrl p raw)"
    by (rule pin [THEN conjunct2, THEN conjunct2, THEN conjunct2])
  show "if f = ''url'' \<and> (\<exists>d\<in>set (get st). sid d = s \<and> url d = Some u)
           then \<exists>i<length (get st).
                  sid (get st ! i) = s \<and> url (get st ! i) = Some u
                  \<and> (\<forall>j<i. \<not> (sid (get st ! j) = s \<and> url (get st ! j) = Some u))
                  \<and> rejectDocument p (Some st) req =
                      (Json 200 [(''message'', ''successfully rejected''), (''description'', descr)],
                       Some (put
                         ((get st)[i := (get st ! i)\<lparr>status := Some ''rejected'', description := Some descr\<rparr>])
                         st))
           else rejectDocument p (Some st) req =
                  (Json 404 [(''error'', ''Document not found for given sid and url'')], Some st)"
  proof (cases "f = ''url'' \<and> (\<exists>d\<in>set (get st). sid d = s \<and> url d = Some u)")
    case True
    obtain i where i: "i < length (get st)"
      "sid (get st ! i) = s \<and> url (get st ! i) = Some u"
      "\<forall>j<i. \<not> (sid (get st ! j) = s \<and> url (get st ! j) = Some u)"
      "modelFindOneAndUpdate m s f u (Reject descr) st
         = (put ((get st)[i := applyChange (Reject descr) (get st ! i)]) st, True)"
      using update_hit [OF coll True, of "Reject descr"] by blast
    have "rejectDocument p (Some st) req =
        (Json 200 [(''message'', ''successfully rejected''), (''description'', descr)],
         Some (put
           ((get st)[i := (get st ! i)\<lparr>status := Some ''rejected'', description := Some descr\<rparr>])
           st))"
      by (simp add: rejectDocument_def auth tgt ok i(4) applyChange_def)
    with i(1-3) have hit: "\<exists>i<length (get st).
                  sid (get st ! i) = s \<and> url (get st ! i) = Some u
                  \<and> (\<forall>j<i. \<not> (sid (get st ! j) = s \<and> url (get st ! j) = Some u))
                  \<and> rejectDocument p (Some st) req =
                      (Json 200 [(''message'', ''successfully rejected''), (''description'', descr)],
                       Some (put
                         ((get st)[i := (get st ! i)\<lparr>status := Some ''rejected'', description := Some descr\<rparr>])
                         st))"
      by blast
    show ?thesis by (subst if_P [OF True]) (rule hit)
  next
    case False
    have miss: "rejectDocument p (Some st) req =
        (Json 404 [(''error'', ''Document not found for given sid and url'')], Some st)"
      by (simp add: rejectDocument_def auth tgt ok update_miss [OF coll False])
    show ?thesis by (subst if_not_P [OF False]) (rule miss)
  qed
qed

theorem review_action_witness:
  "authenticateAdmin (jwtVerify examplePlatform) (Some reviewStore)
       (skillReviewRequest ''certificate unreadable'')
     = Inr \<lparr>oid = ''f1'', facultyid = ''F-1''\<rparr>
   \<and> acceptTarget examplePlatform (body (skillReviewRequest ''certificate unreadable''))
     = Inr (Skill, ''url'', ''s1'', ''/uploads/python.pdf'')
   \<and> rejectTarget examplePlatform (body (skillReviewRequest ''certificate unreadable''))
     = Inr (Skill, ''url'', ''s1'', ''/uploads/python.pdf'', ''certificate unreadable'')
   \<and> coll_Skill reviewStore = [exampleDecoySkill, exampleOldSkill, exampleSkill]
   \<and> acceptDocument examplePlatform (Some reviewStore)
         (skillReviewRequest ''certificate unreadable'')
     = (Json 200 [(''message'', ''successfully accepted'')],
        Some (reviewStore\<lparr>coll_Skill :=
          [exampleDecoySkill, exampleOldSkill,
           exampleSkill\<lparr>status := Some ''accepted'', description := None\<rparr>]\<rparr>))
   \<and> rejectDocument examplePlatform (Some reviewStore)
         (skillReviewRequest ''certificate unreadable'')
     = (Json 200 [(''message'', ''successfully rejected''), (''description'', ''certificate unreadable'')],
        Some (reviewStore\<lparr>coll_Skill :=
          [exampleDecoySkill, exampleOldSkill,
           exampleSkill\<lparr>status := Some ''rejected'',
             description := Some ''certificate unreadable''\<rparr>]\<rparr>))
   \<and> acceptDocument examplePlatform (Some reviewStore)
         (adminRequest [(''sid'', ''s3''), (''docurl'', ''uploads/python.pdf''), (''type'', ''skills'')])
     = (Json 404 [(''error'', ''Document not found for given sid and docurl'')], Some reviewStore)"
proof -
  have auth: "authenticateAdmin (jwtVerify examplePlatform) (Some reviewStore)
       (skillReviewRequest ''certificate unreadable'')
     = Inr \<lparr>oid = ''f1'', facultyid = ''F-1''\<rparr>"
    unfolding skillReviewRequest_def by (rule review_admin_auth)
  have coll: "(Skill, coll_Skill, \<lambda>ds st. st\<lparr>coll_Skill := ds\<rparr>) \<in> set
     [(Activities, coll_Activities, \<lambda>ds st. st\<lparr>coll_Activities := ds\<rparr>),
      (Extracurriculam, coll_Extracurriculam, \<lambda>ds st. st\<lparr>coll_Extracurriculam := ds\<rparr>),
      (Interned, coll_Interned, \<lambda>ds st. st\<lparr>coll_Interned := ds\<rparr>),
      (Company, coll_Company, \<lambda>ds st. st\<lparr>coll_Company := ds\<rparr>),
      (Skill, coll_Skill, \<lambda>ds st. st\<lparr>coll_Skill := ds\<rparr>)]"
    by simp
  have ok: "validators examplePlatform Skill ''status'' ''rejected''"
    "validators examplePlatform Skill ''description'' ''certificate unreadable''"
    by (simp_all add: examplePlatform_def)
  have found: "''url'' = ''url''
      \<and> (\<exists>d\<in>set (coll_Skill reviewStore). sid d = ''s1'' \<and> url d = Some ''/uploads/python.pdf'')"
    by (simp add: exampleSkill_def)
  have missing: "\<not> (''url'' = ''url''
      \<and> (\<exists>d\<in>set (coll_Skill reviewStore). sid d = ''s3'' \<and> url d = Some ''/uploads/python.pdf''))"
    by (simp add: exampleSkill_def exampleOldSkill_def exampleDecoySkill_def)
  note t = review_action [OF auth coll, where f = "''url''" and s = "''s1''"
      and u = "''/uploads/python.pdf''" and descr = "''certificate unreadable''"]
  note acc = t [THEN conjunct1, THEN mp, OF review_accept_target, THEN conjunct2, THEN conjunct2,
      unfolded if_P [OF found]]
  note rej = t [THEN conjunct2, THEN mp, OF conjI [OF review_reject_target conjI [OF ok]],
      THEN conjunct2, THEN conjunct2, THEN conjunct2, THEN conjunct2, unfolded if_P [OF found]]
  from acc obtain i where i: "i < length (coll_Skill reviewStore)"
      "sid (coll_Skill reviewStore ! i) = ''s1''"
      "url (coll_Skill reviewStore ! i) = Some ''/uploads/python.pdf''"
    and a: "acceptDocument examplePlatform (Some reviewStore)
         (skillReviewRequest ''certificate unreadable'')
       = (Json 200 [(''message'', ''successfully accepted'')],
          Some (reviewStore\<lparr>coll_Skill := (coll_Skill reviewStore)
            [i := (coll_Skill reviewStore ! i)\<lparr>status := Some ''accepted'', description := None\<rparr>]\<rparr>))"
    by (elim exE conjE) (rule that, assumption+)
  have "i = 2" using i unfolding review_skills by (rule review_only_match)
  with a have accepted: "acceptDocument examplePlatform (Some reviewStore)
         (skillReviewRequest ''certificate unreadable'')
     = (Json 200 [(''message'', ''successfully accepted'')],
        Some (reviewStore\<lparr>coll_Skill :=
          [exampleDecoySkill, exampleOldSkill,
           exampleSkill\<lparr>status := Some ''accepted'', description := None\<rparr>]\<rparr>))"
    by simp
  from rej obtain j where j: "j < length (coll_Skill reviewStore)"
      "sid (coll_Skill reviewStore ! j) = ''s1''"
      "url (coll_Skill reviewStore ! j) = Some ''/uploads/python.pdf''"
    and r: "rejectDocument examplePlatform (Some reviewStore)
         (skillReviewRequest ''certificate unreadable'')
       = (Json 200 [(''message'', ''successfully rejected''),
                    (''description'', ''certificate unreadable'')],
          Some (reviewStore\<lparr>coll_Skill := (coll_Skill reviewStore)
            [j := (coll_Skill reviewStore ! j)\<lparr>status := Some ''rejected'',
               description := Some ''certificate unreadable''\<rparr>]\<rparr>))"
    by (elim exE conjE) (rule that, assumption+)
  have "j = 2" using j unfolding review_skills by (rule review_only_match)
  with r have rejected: "rejectDocument examplePlatform (Some reviewStore)
         (skillReviewRequest ''certificate unreadable'')
     = (Json 200 [(''message'', ''successfully rejected''), (''description'', ''certificate unreadable'')],
        Some (reviewStore\<lparr>coll_Skill :=
          [exampleDecoySkill, exampleOldSkill,
           exampleSkill\<lparr>status := Some ''rejected'',
             description := Some ''certificate unreadable''\<rparr>]\<rparr>))"
    by simp
  note t' = review_action [OF review_admin_auth coll, where f = "''url''" and s = "''s3''"
      and u = "''/uploads/python.pdf''"]
  note notFound = t' [THEN conjunct1, THEN mp, OF review_missing_target, THEN conjunct2,
      THEN conjunct2, unfolded if_not_P [OF missing]]
  show ?thesis
    by (intro conjI)
      (rule auth review_accept_target review_reject_target review_skills accepted rejected
        notFound)+
qed

text \<open>
  C4. A reject request whose description is only white space is claimed to be refused
  without a change. The admin page refuses such a reason before it sends anything, but the
  route tests \<^verbatim>\<open>!description\<close> only: sent to the route, three blanks pass the
  validation, the internship is rejected and the blanks are stored as its description.
\<close>

theorem whitespace_description_is_stored:
  "promptedDescription (Some ''   '') = None
   \<and> rejectTarget examplePlatform (body (reviewRequest ''   ''))
     = Inr (Interned, ''url'', ''s2'', ''/uploads/offer.pdf'', ''   '')
   \<and> rejectDocument examplePlatform (Some exampleStore) (reviewRequest ''   '')
     = (Json 200 [(''message'', ''successfully rejected''), (''description'', ''   '')],
        Some (exampleStore\<lparr>coll_Interned :=
          [exampleIntern\<lparr>status := Some ''rejected'', description := Some ''   ''\<rparr>]\<rparr>))"
proof -
  have 1: "promptedDescription (Some ''   '') = None" by code_simp
  have 2: "rejectTarget examplePlatform (body (reviewRequest ''   ''))
     = Inr (Interned, ''url'', ''s2'', ''/uploads/offer.pdf'', ''   '')" by code_simp
  have 3: "modelFindOneAndUpdate Interned ''s2'' ''url'' ''/uploads/offer.pdf'' (Reject ''   '')
      exampleStore
     = (exampleStore\<lparr>coll_Interned :=
          [exampleIntern\<lparr>status := Some ''rejected'', description := Some ''   ''\<rparr>]\<rparr>, True)"
    using example_intern_matches
    by (simp add: modelFindOneAndUpdate_def applyChange_def exampleStore_def)
  have 4: "rejectDocument examplePlatform (Some exampleStore) (reviewRequest ''   '')
     = (Json 200 [(''message'', ''successfully rejected''), (''description'', ''   '')],
        Some (exampleStore\<lparr>coll_Interned :=
          [exampleIntern\<lparr>status := Some ''rejected'', description := Some ''   ''\<rparr>]\<rparr>))"
    by (simp add: rejectDocument_def example_admin_auth 2 3) (simp add: examplePlatform_def)
  from 1 2 4 show ?thesis by simp
qed


section \<open>Properties of the client reconnectors\<close>

lemma closed_hook_step:
  assumes "eventSource h = Some CLOSED"
  shows "hookStep t h ev = h"
  using assms by (cases ev) (simp_all add: live_def)

lemma closed_hook_run:
  assumes "eventSource h = Some CLOSED"
  shows "foldl (hookStep t) h evs = h"
  using assms by (induction evs) (simp_all add: closed_hook_step)

text \<open>
  C9, as the code has it. On a transport error a student hook with a live connection marks
  itself not connected, sets an error text and closes the connection, and nothing that
  arrives afterwards changes its state (it never reopens). The admin page marks itself not
  live and clears its loading flag; it shows no toast, leaves the connection in the state
  the transport gave it, and sets a timeout that opens a new connection when it finds the
  old one closed.
\<close>

theorem reconnector_on_error:
  assumes "live (eventSource h)" and "live (eventSourceRef pg)"
  shows "isConnected (hookStep t h (TransportError rs)) = False
     \<and> error (hookStep t h (TransportError rs)) = Some ''Failed to connect to real-time updates''
     \<and> eventSource (hookStep t h (TransportError rs)) = Some CLOSED
     \<and> (\<forall>evs. foldl (hookStep t) (hookStep t h (TransportError rs)) evs
            = hookStep t h (TransportError rs))
     \<and> isLiveConnected (pageStep pg (SourceError rs)) = False
     \<and> pageLoading (pageStep pg (SourceError rs)) = False
     \<and> toasts (pageStep pg (SourceError rs)) = toasts pg
     \<and> eventSourceRef (pageStep pg (SourceError rs)) = Some rs
     \<and> reconnectTimers (pageStep pg (SourceError rs)) = Suc (reconnectTimers pg)
     \<and> eventSourceRef (pageStep (pageStep pg (SourceError rs)) TimeoutFires)
          = (if rs = CLOSED then Some CONNECTING else Some rs)"
proof -
  have closed: "eventSource (hookStep t h (TransportError rs)) = Some CLOSED"
    using assms(1) by (simp add: onerror_def errorListener_def)
  have "\<forall>evs. foldl (hookStep t) (hookStep t h (TransportError rs)) evs
            = hookStep t h (TransportError rs)"
    using closed_hook_run [OF closed] by blast
  moreover have "isConnected (hookStep t h (TransportError rs)) = False"
    "error (hookStep t h (TransportError rs)) = Some ''Failed to connect to real-time updates''"
    using assms(1) by (simp_all add: onerror_def errorListener_def)
  moreover have "isLiveConnected (pageStep pg (SourceError rs)) = False"
    "pageLoading (pageStep pg (SourceError rs)) = False"
    "toasts (pageStep pg (SourceError rs)) = toasts pg"
    "eventSourceRef (pageStep pg (SourceError rs)) = Some rs"
    "reconnectTimers (pageStep pg (SourceError rs)) = Suc (reconnectTimers pg)"
    using assms(2) by (simp_all add: pageOnError_def)
  moreover have "eventSourceRef (pageStep (pageStep pg (SourceError rs)) TimeoutFires)
          = (if rs = CLOSED then Some CONNECTING else Some rs)"
    using assms(2) by (simp add: pageOnError_def pageOnTimeout_def connectSSE_def Let_def)
  ultimately show ?thesis using closed by simp
qed

theorem reconnector_on_error_witness:
  "live (eventSource exampleHook) \<and> live (eventSourceRef examplePage)
   \<and> hookStep ''Failed to parse skills data'' exampleHook (TransportError CONNECTING)
       = \<lparr>items = [], loading = True, error = Some ''Failed to connect to real-time updates'',
          isConnected = False, eventSource = Some CLOSED\<rparr>
   \<and> foldl (hookStep ''Failed to parse skills data'')
         (hookStep ''Failed to parse skills data'' exampleHook (TransportError CONNECTING))
         [Update (Some [exampleSkill]), TransportError CLOSED, Unmount]
       = \<lparr>items = [], loading = True, error = Some ''Failed to connect to real-time updates'',
          isConnected = False, eventSource = Some CLOSED\<rparr>
   \<and> pageStep examplePage (SourceError CLOSED)
       = examplePage\<lparr>pageLoading := False, isLiveConnected := False,
           eventSourceRef := Some CLOSED, reconnectTimers := 1\<rparr>
   \<and> eventSourceRef (pageStep (pageStep examplePage (SourceError CLOSED)) TimeoutFires)
       = Some CONNECTING"
proof -
  have h: "live (eventSource exampleHook)"
    by (simp add: exampleHook_def setupSSE_def truthy_def initialHook_def live_def)
  have p: "live (eventSourceRef examplePage)"
    by (simp add: examplePage_def live_def)
  have e: "hookStep ''Failed to parse skills data'' exampleHook (TransportError CONNECTING)
       = \<lparr>items = [], loading = True, error = Some ''Failed to connect to real-time updates'',
          isConnected = False, eventSource = Some CLOSED\<rparr>"
    by (simp add: exampleHook_def setupSSE_def truthy_def initialHook_def live_def onerror_def
        errorListener_def)
  have g: "pageStep examplePage (SourceError CLOSED)
       = examplePage\<lparr>pageLoading := False, isLiveConnected := False,
           eventSourceRef := Some CLOSED, reconnectTimers := 1\<rparr>"
    by (simp add: examplePage_def live_def pageOnError_def)
  note hook = reconnector_on_error [OF h p, of "''Failed to parse skills data''" CONNECTING]
  note page = reconnector_on_error [OF h p, of "''Failed to parse skills data''" CLOSED]
  have "\<forall>evs. foldl (hookStep ''Failed to parse skills data'')
            (hookStep ''Failed to parse skills data'' exampleHook (TransportError CONNECTING)) evs
          = hookStep ''Failed to parse skills data'' exampleHook (TransportError CONNECTING)"
    by (rule conjunct1 [OF conjunct2 [OF conjunct2 [OF conjunct2 [OF hook]]]])
  then have run: "foldl (hookStep ''Failed to parse skills data'')
         (hookStep ''Failed to parse skills data'' exampleHook (TransportError CONNECTING))
         [Update (Some [exampleSkill]), TransportError CLOSED, Unmount]
       = hookStep ''Failed to parse skills data'' exampleHook (TransportError CONNECTING)"
    by (rule spec)
  have "eventSourceRef (pageStep (pageStep examplePage (SourceError CLOSED)) TimeoutFires)
       = (if CLOSED = CLOSED then Some CONNECTING else Some CLOSED)"
    using page by (elim conjE) assumption
  moreover have "(if CLOSED = CLOSED then Some CONNECTING else Some CLOSED) = Some CONNECTING"
    by simp
  ultimately have timeout:
    "eventSourceRef (pageStep (pageStep examplePage (SourceError CLOSED)) TimeoutFires)
       = Some CONNECTING"
    by (rule trans)
  show ?thesis
    by (intro conjI) (rule h p e trans [OF run e] g timeout)+
qed

text \<open>
  C9 as stated fails for the admin page: its error handler surfaces nothing and does not
  close the connection (after an error that the transport retries, the connection is still
  connecting), and after an error that closed the connection the page's timeout opens a
  new one.
\<close>

theorem page_reconnects_itself:
  "eventSourceRef (pageStep examplePage (SourceError CONNECTING)) = Some CONNECTING
   \<and> toasts (pageStep examplePage (SourceError CONNECTING)) = []
   \<and> eventSourceRef (pageStep examplePage (SourceError CLOSED)) = Some CLOSED
   \<and> toasts (pageStep examplePage (SourceError CLOSED)) = []
   \<and> eventSourceRef (pageStep (pageStep examplePage (SourceError CLOSED)) TimeoutFires)
       = Some CONNECTING"
  by (simp add: examplePage_def live_def pageOnError_def pageOnTimeout_def connectSSE_def)


end
